theory Spec2Isabelle
  imports Main "HOL-Library.Sublist"
begin

section \<open>Python values as the client sees them\<close>

text \<open>
  The client of \<^verbatim>\<open>custom_components/zte_router/api.py\<close> handles whatever
  \<^verbatim>\<open>response.json(content_type=None)\<close> hands back: \<^verbatim>\<open>None\<close>, booleans, integers,
  floats, strings, lists and dictionaries. A float is kept exactly, as mantissa times a
  power of two, since the code only compares numbers with integer literals and tests them
  for zero. A dictionary is an association list with distinct keys, read with \<open>map_of\<close>.
  A string is the list of its UTF-8 bytes. A lone surrogate, which \<^verbatim>\<open>json.loads\<close> accepts
  (\<^verbatim>\<open>"\ud800"\<close>) and UTF-8 does not encode, is kept as the three bytes that
  \<^verbatim>\<open>surrogatepass\<close> writes for it: \<^verbatim>\<open>ED\<close>, a byte from \<^verbatim>\<open>A0\<close> to \<^verbatim>\<open>BF\<close>, and a
  third one.

  The functions keep the names of the source without the leading underscore. The
  coroutines are run one after the other, as a single caller awaits them. Exceptions are
  values: a function of the source that can raise returns a sum, whose left side is the
  exception, and the \<^verbatim>\<open>except Exception\<close> handlers are case distinctions on it.
\<close>

datatype pyfloat = Finite int int | PosInf | NegInf | NaN

datatype json =
    JNull
  | JBool bool
  | JInt int
  | JFloat pyfloat
  | JStr string
  | JArr "json list"
  | JObj "(string \<times> json) list"

datatype py_error =
    ClientError
  | TimeoutError
  | ClientResponseError nat
  | JSONDecodeError
  | AttributeError
  | TypeError
  | KeyError
  | DictSliceError
  | UnicodeEncodeError
  | IndexError

text \<open>\<open>DictSliceError\<close> is what \<^verbatim>\<open>d[:8]\<close> raises on a dictionary: \<^verbatim>\<open>TypeError\<close>
  (unhashable slice) before Python 3.12, \<^verbatim>\<open>KeyError\<close> from 3.12 on.\<close>

text \<open>A literal of the source that a value is compared with.\<close>

datatype literal = LStr string | LInt int

fun float_eq_int :: "pyfloat \<Rightarrow> int \<Rightarrow> bool" where
  "float_eq_int (Finite m e) k =
     (if 0 \<le> e then m * 2 ^ nat e = k else m = k * 2 ^ nat (- e))"
| "float_eq_int PosInf k = False"
| "float_eq_int NegInf k = False"
| "float_eq_int NaN k = False"

text \<open>Python's \<^verbatim>\<open>==\<close> between a parsed value and a literal: \<^verbatim>\<open>True == 1\<close>,
  \<^verbatim>\<open>False == 0\<close> and \<^verbatim>\<open>0.0 == 0\<close> hold there.\<close>

fun py_eq :: "json \<Rightarrow> literal \<Rightarrow> bool" where
  "py_eq (JStr s) (LStr t) = (s = t)"
| "py_eq (JInt i) (LInt k) = (i = k)"
| "py_eq (JBool b) (LInt k) = ((if b then 1 else 0) = k)"
| "py_eq (JFloat f) (LInt k) = float_eq_int f k"
| "py_eq v l = False"

text \<open>\<^verbatim>\<open>x in (a, b)\<close> on a tuple of literals.\<close>

definition py_in :: "json \<Rightarrow> literal list \<Rightarrow> bool" where
  "py_in v ls = list_ex (py_eq v) ls"

text \<open>Truth value of a Python object (\<^verbatim>\<open>if x:\<close>, \<^verbatim>\<open>x or {}\<close>).\<close>

fun truthy :: "json \<Rightarrow> bool" where
  "truthy JNull = False"
| "truthy (JBool b) = b"
| "truthy (JInt i) = (i \<noteq> 0)"
| "truthy (JFloat (Finite m e)) = (m \<noteq> 0)"
| "truthy (JFloat f) = True"
| "truthy (JStr s) = (s \<noteq> [])"
| "truthy (JArr xs) = (xs \<noteq> [])"
| "truthy (JObj kvs) = (kvs \<noteq> [])"

text \<open>\<^verbatim>\<open>x.get(key, default)\<close>: only a dictionary has the method.\<close>

fun py_get :: "json \<Rightarrow> string \<Rightarrow> json \<Rightarrow> py_error + json" where
  "py_get (JObj kvs) k d = Inr (case map_of kvs k of None \<Rightarrow> d | Some v \<Rightarrow> v)"
| "py_get v k d = Inl AttributeError"

text \<open>\<^verbatim>\<open>key in x\<close> for a string key: key membership in a dictionary, substring test
  in a string, element membership in a list, a \<^verbatim>\<open>TypeError\<close> otherwise.\<close>

fun py_contains :: "json \<Rightarrow> string \<Rightarrow> py_error + bool" where
  "py_contains (JObj kvs) k = Inr (map_of kvs k \<noteq> None)"
| "py_contains (JStr s) k = Inr (sublist k s)"
| "py_contains (JArr xs) k = Inr (list_ex (\<lambda>x. py_eq x (LStr k)) xs)"
| "py_contains v k = Inl TypeError"

text \<open>\<^verbatim>\<open>x[key]\<close> for a string key.\<close>

fun py_getitem :: "json \<Rightarrow> string \<Rightarrow> py_error + json" where
  "py_getitem (JObj kvs) k = (case map_of kvs k of None \<Rightarrow> Inl KeyError | Some v \<Rightarrow> Inr v)"
| "py_getitem v k = Inl TypeError"

text \<open>\<^verbatim>\<open>s + x\<close> for a string \<open>s\<close>.\<close>

fun py_concat :: "string \<Rightarrow> json \<Rightarrow> py_error + string" where
  "py_concat s (JStr t) = Inr (s @ t)"
| "py_concat s v = Inl TypeError"

text \<open>\<^verbatim>\<open>x[:8] + "..."\<close>, the argument of two log calls of \<^verbatim>\<open>async_update\<close>. Only a
  string passes: \<^verbatim>\<open>None\<close> and numbers are not subscriptable, a list slice cannot be
  added to a string, and a dictionary rejects the slice as a key. The string goes to the
  log only; its first eight characters are counted in bytes here.\<close>

fun py_prefix8 :: "json \<Rightarrow> py_error + string" where
  "py_prefix8 (JStr s) = Inr (take 8 s @ ''...'')"
| "py_prefix8 (JObj kvs) = Inl DictSliceError"
| "py_prefix8 v = Inl TypeError"

text \<open>\<^verbatim>\<open>s.encode()\<close>: the UTF-8 bytes of the string, or \<^verbatim>\<open>UnicodeEncodeError\<close> when
  the string holds a surrogate.\<close>

fun has_surrogate :: "string \<Rightarrow> bool" where
  "has_surrogate (a # b # s) =
     ((of_char a = (237::nat) \<and> 160 \<le> (of_char b :: nat) \<and> (of_char b :: nat) \<le> 191)
      \<or> has_surrogate (b # s))"
| "has_surrogate s = False"

definition encode :: "string \<Rightarrow> py_error + string" where
  "encode s = (if has_surrogate s then Inl UnicodeEncodeError else Inr s)"

text \<open>\<^verbatim>\<open>str.upper()\<close> on the ASCII range; it is applied to hexadecimal digests only.\<close>

definition upper_char :: "char \<Rightarrow> char" where
  "upper_char c =
     (let n = (of_char c :: nat) in if 97 \<le> n \<and> n \<le> 122 then char_of (n - 32) else c)"

definition upper :: "string \<Rightarrow> string" where
  "upper s = map upper_char s"

section \<open>The client and the device\<close>

definition UNAUTHENTICATED_SESSION :: string where
  "UNAUTHENTICATED_SESSION = ''00000000000000000000000000000000''"

datatype http_session = NoSession | SessionOpen | SessionClosed

record client =
  host :: string
  password :: "string option"
  base_url :: string
  session_id :: json
  session :: http_session
  request_id :: int

text \<open>
  The device and the network: the \<open>k\<close>-th POST of the client's lifetime is answered by
  \<open>replies k\<close>, either the exception raised by \<^verbatim>\<open>session.post\<close> (no connection, the
  timeout), \<^verbatim>\<open>raise_for_status\<close> or \<^verbatim>\<open>response.json\<close>, or the parsed body.
  \<open>sent\<close> records the bodies posted so far; the time stamp in the URL plays no role. Any
  device, whatever its answers depend on, yields one such sequence of replies against this
  deterministic client.
\<close>

record world =
  replies :: "nat \<Rightarrow> py_error + json"
  sent :: "json list"

definition post :: "world \<Rightarrow> json \<Rightarrow> (py_error + json) \<times> world" where
  "post w body = (replies w (length (sent w)), w\<lparr>sent := sent w @ [body]\<rparr>)"

definition init :: "string \<Rightarrow> string option \<Rightarrow> client" where
  "init h p =
     \<lparr>host = h, password = p, base_url = ''http://'' @ h @ ''/ubus/'',
      session_id = JStr UNAUTHENTICATED_SESSION, session = NoSession, request_id = 1\<rparr>"

definition get_session :: "client \<Rightarrow> client" where
  "get_session c =
     (if session c = NoSession \<or> session c = SessionClosed
      then c\<lparr>session := SessionOpen\<rparr> else c)"

definition close :: "client \<Rightarrow> client" where
  "close c = (if session c = SessionOpen then c\<lparr>session := SessionClosed\<rparr> else c)"

type_synonym call = "string \<times> string \<times> (string \<times> json) list option"

definition create_rpc_request :: "client \<Rightarrow> call \<Rightarrow> json \<times> client" where
  "create_rpc_request c cl =
     (case cl of (namespace, method, params) \<Rightarrow>
        let params' = (case params of None \<Rightarrow> [] | Some ps \<Rightarrow> ps);
            request = JObj
              [(''jsonrpc'', JStr ''2.0''),
               (''id'', JInt (request_id c)),
               (''method'', JStr ''call''),
               (''params'', JArr [session_id c, JStr namespace, JStr method, JObj params'])]
        in (request, c\<lparr>request_id := request_id c + 1\<rparr>))"

subsection \<open>A single call\<close>

text \<open>The body of the \<^verbatim>\<open>try\<close> of \<^verbatim>\<open>_call_api\<close>, from the reply on.\<close>

definition call_api_try :: "(py_error + json) \<Rightarrow> py_error + json" where
  "call_api_try reply =
     (case reply of
        Inl err \<Rightarrow> Inl err
      | Inr data \<Rightarrow>
          (case data of
             JArr items \<Rightarrow>
               (case items of
                  [] \<Rightarrow> Inr JNull
                | item # _ \<Rightarrow>
                    (case py_get item ''result'' (JArr []) of
                       Inl err \<Rightarrow> Inl err
                     | Inr result \<Rightarrow>
                         (case result of
                            JArr rs \<Rightarrow> if 1 < length rs then Inr (rs ! 1) else Inr JNull
                          | _ \<Rightarrow> Inr JNull)))
           | _ \<Rightarrow> Inr JNull))"

text \<open>\<^verbatim>\<open>except Exception\<close>: every exception of the body becomes \<^verbatim>\<open>None\<close>.\<close>

definition payload :: "(py_error + json) \<Rightarrow> json" where
  "payload reply = (case call_api_try reply of Inl err \<Rightarrow> JNull | Inr v \<Rightarrow> v)"

definition call_api :: "client \<Rightarrow> world \<Rightarrow> call \<Rightarrow> json \<times> client \<times> world" where
  "call_api c w cl =
     (let c1 = get_session c;
          (request, c2) = create_rpc_request c1 cl;
          (reply, w') = post w (JArr [request])
      in (payload reply, c2, w'))"

subsection \<open>A batch of calls\<close>

text \<open>The list comprehension that builds one request per call, in order.\<close>

fun create_requests :: "client \<Rightarrow> call list \<Rightarrow> json list \<times> client" where
  "create_requests c [] = ([], c)"
| "create_requests c (cl # cls) =
     (let (request, c1) = create_rpc_request c cl;
          (requests, c2) = create_requests c1 cls
      in (request # requests, c2))"

text \<open>
  The loop over the items of the response, with its two accumulators \<^verbatim>\<open>results\<close> and
  \<^verbatim>\<open>access_denied_count\<close>. \<^verbatim>\<open>item["error"].get("code")\<close> raises when the error member
  is not a dictionary; the log calls of the loop cannot raise.
\<close>

fun batch_loop :: "json list \<Rightarrow> json list \<Rightarrow> nat \<Rightarrow> py_error + (json list \<times> nat)" where
  "batch_loop [] results access_denied_count = Inr (results, access_denied_count)"
| "batch_loop (item # rest) results access_denied_count =
     (case item of
        JObj kvs \<Rightarrow>
          (case map_of kvs ''error'' of
             Some error \<Rightarrow>
               (case py_get error ''code'' JNull of
                  Inl err \<Rightarrow> Inl err
                | Inr error_code \<Rightarrow>
                    if py_eq error_code (LInt (- 32002))
                    then batch_loop rest (results @ [JNull]) (access_denied_count + 1)
                    else batch_loop rest (results @ [JNull]) access_denied_count)
           | None \<Rightarrow>
               (case py_get item ''result'' (JArr []) of
                  Inl err \<Rightarrow> Inl err
                | Inr result \<Rightarrow>
                    (case result of
                       JArr rs \<Rightarrow>
                         if 1 < length rs
                         then batch_loop rest (results @ [rs ! 1]) access_denied_count
                         else batch_loop rest (results @ [JNull]) access_denied_count
                     | _ \<Rightarrow> batch_loop rest (results @ [JNull]) access_denied_count)))
      | _ \<Rightarrow> batch_loop rest (results @ [JNull]) access_denied_count)"

text \<open>The body of the \<^verbatim>\<open>try\<close> of \<^verbatim>\<open>_call_api_batch\<close>, from the reply on; \<open>n\<close> is
  \<^verbatim>\<open>len(calls)\<close>.\<close>

definition call_api_batch_try ::
  "client \<Rightarrow> nat \<Rightarrow> (py_error + json) \<Rightarrow> py_error + (json list \<times> client)" where
  "call_api_batch_try c n reply =
     (case reply of
        Inl err \<Rightarrow> Inl err
      | Inr data \<Rightarrow>
          (case data of
             JArr items \<Rightarrow>
               (case batch_loop items [] 0 of
                  Inl err \<Rightarrow> Inl err
                | Inr (results, access_denied_count) \<Rightarrow>
                    if 2 \<le> access_denied_count \<and> session_id c \<noteq> JStr UNAUTHENTICATED_SESSION
                    then Inr (results, c\<lparr>session_id := JStr UNAUTHENTICATED_SESSION\<rparr>)
                    else Inr (results, c))
           | _ \<Rightarrow> Inr (replicate n JNull, c)))"

definition call_api_batch :: "client \<Rightarrow> world \<Rightarrow> call list \<Rightarrow> json list \<times> client \<times> world" where
  "call_api_batch c w calls =
     (let c1 = get_session c;
          (requests, c2) = create_requests c1 calls;
          (reply, w') = post w (JArr requests)
      in case call_api_batch_try c2 (length calls) reply of
           Inl err \<Rightarrow> (replicate (length calls) JNull, c2, w')
         | Inr (results, c3) \<Rightarrow> (results, c3, w'))"

subsection \<open>Login\<close>

text \<open>
  \<open>sha256\<close> stands for \<^verbatim>\<open>hashlib.sha256(b).hexdigest()\<close> on bytes \<open>b\<close>, which is not part of
  the repository. The end of the \<^verbatim>\<open>try\<close> of \<^verbatim>\<open>async_login\<close>, from
  \<^verbatim>\<open>if login_result:\<close> on:
\<close>

definition login_result_check ::
  "json \<Rightarrow> client \<Rightarrow> world \<Rightarrow> (py_error + bool) \<times> client \<times> world" where
  "login_result_check login_result c w =
     (if truthy login_result then
        case py_get login_result ''result'' JNull of
          Inl err \<Rightarrow> (Inl err, c, w)
        | Inr result_code \<Rightarrow>
            if py_in result_code [LStr ''0'', LInt 0] then
              case py_get login_result ''ubus_rpc_session'' (session_id c) of
                Inl err \<Rightarrow> (Inl err, c, w)
              | Inr sid \<Rightarrow> (Inr True, c\<lparr>session_id := sid\<rparr>, w)
            else if py_in result_code [LInt 1, LStr ''1''] then (Inr False, c, w)
            else if py_in result_code [LInt 2, LStr ''2''] then (Inr False, c, w)
            else (Inr False, c, w)
      else (Inr False, c, w))"

text \<open>The body of the \<^verbatim>\<open>try\<close> of \<^verbatim>\<open>async_login\<close>, for a password \<open>pw\<close>:\<close>

definition async_login_try ::
  "(string \<Rightarrow> string) \<Rightarrow> string \<Rightarrow> client \<Rightarrow> world \<Rightarrow> (py_error + bool) \<times> client \<times> world" where
  "async_login_try sha256 pw c w =
     (let (login_info, c1, w1) = call_api c w (''zwrt_web'', ''web_login_info'', None) in
      if \<not> truthy login_info then (Inr False, c1, w1)
      else case py_contains login_info ''zte_web_sault'' of
        Inl err \<Rightarrow> (Inl err, c1, w1)
      | Inr has_salt \<Rightarrow>
          if \<not> has_salt then (Inr False, c1, w1)
          else case py_getitem login_info ''zte_web_sault'' of
            Inl err \<Rightarrow> (Inl err, c1, w1)
          | Inr salt \<Rightarrow>
              case encode pw of
                Inl err \<Rightarrow> (Inl err, c1, w1)
              | Inr pw_bytes \<Rightarrow>
                  let hashed = upper (sha256 pw_bytes) in
                  case py_concat hashed salt of
                    Inl err \<Rightarrow> (Inl err, c1, w1)
                  | Inr salted \<Rightarrow>
                      case encode salted of
                        Inl err \<Rightarrow> (Inl err, c1, w1)
                      | Inr salted_bytes \<Rightarrow>
                          let hashed_with_salt = upper (sha256 salted_bytes);
                              (login_result, c2, w2) =
                                 call_api c1 w1
                                   (''zwrt_web'', ''web_login'',
                                    Some [(''password'', JStr (upper hashed_with_salt))])
                          in login_result_check login_result c2 w2)"

definition async_login :: "(string \<Rightarrow> string) \<Rightarrow> client \<Rightarrow> world \<Rightarrow> bool \<times> client \<times> world" where
  "async_login sha256 c w =
     (case password c of
        None \<Rightarrow> (False, c, w)
      | Some pw \<Rightarrow>
          if pw = [] then (False, c, w)
          else (case async_login_try sha256 pw c w of
                  (Inl err, c', w') \<Rightarrow> (False, c', w')
                | (Inr ok, c', w') \<Rightarrow> (ok, c', w')))"

subsection \<open>Refresh\<close>

definition py_or :: "json \<Rightarrow> json \<Rightarrow> json" where
  "py_or x d = (if truthy x then x else d)"

text \<open>The first step of \<^verbatim>\<open>async_update\<close>: the optional login and its log calls.\<close>

definition update_login ::
  "(string \<Rightarrow> string) \<Rightarrow> client \<Rightarrow> world \<Rightarrow> (py_error + unit) \<times> client \<times> world" where
  "update_login sha256 c w =
     (if truthy (case password c of None \<Rightarrow> JNull | Some pw \<Rightarrow> JStr pw)
         \<and> session_id c = JStr UNAUTHENTICATED_SESSION
      then (let (login_success, c1, w1) = async_login sha256 c w in
            if login_success
            then (case py_prefix8 (session_id c1) of
                    Inl err \<Rightarrow> (Inl err, c1, w1)
                  | Inr shown \<Rightarrow> (Inr (), c1, w1))
            else (Inr (), c1, w1))
      else (Inr (), c, w))"

definition update_calls :: "string \<Rightarrow> call list" where
  "update_calls router_method =
     [(''zwrt_router.api'', router_method, None),
      (''zte_nwinfo_api'', ''nwinfo_get_netinfo'', None),
      (''zwrt_data'', ''get_wwandst'',
         Some [(''source_module'', JStr ''web''), (''cid'', JInt 1), (''type'', JInt 4)]),
      (''zwrt_router.api'', ''router_get_user_list_num'', None),
      (''zwrt_wlan'', ''report'', None)]"

text \<open>What \<^verbatim>\<open>async_update\<close> does with the results of the batch: it reads
  \<^verbatim>\<open>results[0]\<close> to \<^verbatim>\<open>results[4]\<close>, calls \<^verbatim>\<open>results[2].get\<close> when that entry is
  true, and builds the dictionary it returns.\<close>

definition update_results :: "json list \<Rightarrow> py_error + json" where
  "update_results results =
     (if length results < 5 then Inl IndexError
      else case (if truthy (results ! 2)
                 then py_get (results ! 2) ''real_tx_speed'' JNull else Inr JNull) of
        Inl err \<Rightarrow> Inl err
      | Inr speed \<Rightarrow>
          Inr (JObj
            [(''router_status'', py_or (results ! 0) (JObj [])),
             (''network_info'', py_or (results ! 1) (JObj [])),
             (''data_usage'', py_or (results ! 2) (JObj [])),
             (''device_info'', py_or (results ! 3) (JObj [])),
             (''wlan_info'', py_or (results ! 4) (JObj []))]))"

definition async_update ::
  "(string \<Rightarrow> string) \<Rightarrow> client \<Rightarrow> world \<Rightarrow> (py_error + json) \<times> client \<times> world" where
  "async_update sha256 c w =
     (case update_login sha256 c w of
        (Inl err, c1, w1) \<Rightarrow> (Inl err, c1, w1)
      | (Inr u, c1, w1) \<Rightarrow>
          let router_method =
                (if session_id c1 \<noteq> JStr UNAUTHENTICATED_SESSION
                 then ''router_get_status'' else ''router_get_status_no_auth'')
          in case py_prefix8 (session_id c1) of
               Inl err \<Rightarrow> (Inl err, c1, w1)
             | Inr shown \<Rightarrow>
                 let (results, c2, w2) = call_api_batch c1 w1 (update_calls router_method)
                 in (update_results results, c2, w2))"

subsection \<open>A client's lifetime\<close>

datatype operation =
    CallOne call
  | CallBatch "call list"
  | Authenticate
  | Refresh
  | Close

fun exec :: "(string \<Rightarrow> string) \<Rightarrow> operation \<Rightarrow> client \<times> world \<Rightarrow> client \<times> world" where
  "exec sha256 (CallOne cl) (c, w) = snd (call_api c w cl)"
| "exec sha256 (CallBatch cls) (c, w) = snd (call_api_batch c w cls)"
| "exec sha256 Authenticate (c, w) = snd (async_login sha256 c w)"
| "exec sha256 Refresh (c, w) = snd (async_update sha256 c w)"
| "exec sha256 Close (c, w) = (close c, w)"

fun run :: "(string \<Rightarrow> string) \<Rightarrow> operation list \<Rightarrow> client \<times> world \<Rightarrow> client \<times> world" where
  "run sha256 [] s = s"
| "run sha256 (op # ops) s = run sha256 ops (exec sha256 op s)"

section \<open>Notions of the specification\<close>

text \<open>The envelope of a call, for a session token and a request id.\<close>

definition envelope :: "json \<Rightarrow> int \<Rightarrow> call \<Rightarrow> json" where
  "envelope token n cl =
     (case cl of (namespace, method, params) \<Rightarrow>
        JObj [(''jsonrpc'', JStr ''2.0''),
              (''id'', JInt n),
              (''method'', JStr ''call''),
              (''params'', JArr [token, JStr namespace, JStr method,
                                 JObj (case params of None \<Rightarrow> [] | Some ps \<Rightarrow> ps)])])"

text \<open>One envelope per call, in order, with consecutive request ids.\<close>

fun envelopes :: "json \<Rightarrow> int \<Rightarrow> call list \<Rightarrow> json list" where
  "envelopes token n [] = []"
| "envelopes token n (cl # cls) = envelope token n cl # envelopes token (n + 1) cls"

text \<open>The request ids of the envelopes posted so far, in the order of construction.\<close>

fun envelope_id :: "json \<Rightarrow> int list" where
  "envelope_id (JObj kvs) = (case map_of kvs ''id'' of Some (JInt n) \<Rightarrow> [n] | _ \<Rightarrow> [])"
| "envelope_id v = []"

fun body_ids :: "json \<Rightarrow> int list" where
  "body_ids (JArr es) = concat (map envelope_id es)"
| "body_ids v = []"

definition sent_ids :: "world \<Rightarrow> int list" where
  "sent_ids w = concat (map body_ids (sent w))"

text \<open>The result array of a response item, when the item is an object whose
  \<^verbatim>\<open>result\<close> member is an array of at least two elements.\<close>

fun result_array :: "json \<Rightarrow> json list option" where
  "result_array (JObj kvs) =
     (case map_of kvs ''result'' of
        Some (JArr rs) \<Rightarrow> if 2 \<le> length rs then Some rs else None
      | _ \<Rightarrow> None)"
| "result_array v = None"

text \<open>An expiry signal: a response item whose \<^verbatim>\<open>error\<close> member is an object with
  code \<open>-32002\<close>.\<close>

fun access_denied :: "json \<Rightarrow> bool" where
  "access_denied (JObj kvs) =
     (case map_of kvs ''error'' of
        Some (JObj err) \<Rightarrow>
          (case map_of err ''code'' of Some code \<Rightarrow> py_eq code (LInt (- 32002)) | None \<Rightarrow> False)
      | _ \<Rightarrow> False)"
| "access_denied v = False"

definition expiry_signals :: "json list \<Rightarrow> nat" where
  "expiry_signals items = length (filter access_denied items)"

text \<open>A response item whose \<^verbatim>\<open>error\<close> member, if it has one, is an object.\<close>

fun error_is_object :: "json \<Rightarrow> bool" where
  "error_is_object (JObj kvs) =
     (case map_of kvs ''error'' of Some (JObj err) \<Rightarrow> True | Some v \<Rightarrow> False | None \<Rightarrow> True)"
| "error_is_object v = True"

text \<open>A device that answers the POSTs from a script and is unreachable afterwards.\<close>

definition scripted :: "(py_error + json) list \<Rightarrow> nat \<Rightarrow> py_error + json" where
  "scripted rs k = (if k < length rs then rs ! k else Inl ClientError)"

definition device :: "(py_error + json) list \<Rightarrow> world" where
  "device rs = \<lparr>replies = scripted rs, sent = []\<rparr>"

text \<open>A member of an object.\<close>

fun member :: "json \<Rightarrow> string \<Rightarrow> json option" where
  "member (JObj kvs) k = map_of kvs k"
| "member v k = None"

text \<open>The salt of a login-info payload: its \<^verbatim>\<open>zte_web_sault\<close> member, when the
  payload is an object and the member a string.\<close>

definition salt_of :: "json \<Rightarrow> string option" where
  "salt_of login_info =
     (case member login_info ''zte_web_sault'' of Some (JStr salt) \<Rightarrow> Some salt | _ \<Rightarrow> None)"

text \<open>The result code of a login payload: the \<^verbatim>\<open>result\<close> member of a non-empty
  object (\<^verbatim>\<open>None\<close> when the object has none); any other payload counts as no response.\<close>

fun login_code :: "json \<Rightarrow> json option" where
  "login_code (JObj kvs) =
     (if kvs = [] then None
      else Some (case map_of kvs ''result'' of Some code \<Rightarrow> code | None \<Rightarrow> JNull))"
| "login_code v = None"

text \<open>The digest of the login handshake, for a hash function giving hexadecimal digits,
  and the condition under which it exists: the credential, and the first digest followed
  by the salt, can be encoded.\<close>

definition login_digest :: "(string \<Rightarrow> string) \<Rightarrow> string \<Rightarrow> string \<Rightarrow> string" where
  "login_digest sha256 credential salt = upper (sha256 (upper (sha256 credential) @ salt))"

definition digest_defined :: "(string \<Rightarrow> string) \<Rightarrow> string \<Rightarrow> string \<Rightarrow> bool" where
  "digest_defined sha256 credential salt =
     (\<not> has_surrogate credential \<and> \<not> has_surrogate (upper (sha256 credential) @ salt))"

text \<open>
  The authentication of the specification, with the result code compared as Python does:
  without a credential nothing is sent; without a salt, or when the digest does not exist,
  only the login-info call is sent; otherwise the login call carries the digest, and result code 0 adopts the
  \<^verbatim>\<open>ubus_rpc_session\<close> member of the payload, if there is one.
\<close>

definition authenticate :: "(string \<Rightarrow> string) \<Rightarrow> client \<Rightarrow> world \<Rightarrow> bool \<times> client \<times> world" where
  "authenticate sha256 c w =
     (case password c of
        None \<Rightarrow> (False, c, w)
      | Some credential \<Rightarrow>
          if credential = [] then (False, c, w)
          else
            let n = length (sent w);
                info_call = JArr [envelope (session_id c) (request_id c)
                                    (''zwrt_web'', ''web_login_info'', None)]
            in case salt_of (payload (replies w n)) of
                 None \<Rightarrow>
                   (False, (get_session c)\<lparr>request_id := request_id c + 1\<rparr>,
                    w\<lparr>sent := sent w @ [info_call]\<rparr>)
               | Some salt \<Rightarrow>
                   if \<not> digest_defined sha256 credential salt
                   then (False, (get_session c)\<lparr>request_id := request_id c + 1\<rparr>,
                         w\<lparr>sent := sent w @ [info_call]\<rparr>)
                   else
                   let login_call = JArr [envelope (session_id c) (request_id c + 1)
                          (''zwrt_web'', ''web_login'',
                           Some [(''password'', JStr (login_digest sha256 credential salt))])];
                       login_result = payload (replies w (Suc n));
                       accepted = (case login_code login_result of
                                     None \<Rightarrow> False
                                   | Some code \<Rightarrow> py_in code [LStr ''0'', LInt 0]);
                       token = (if accepted
                                then (case member login_result ''ubus_rpc_session'' of
                                        Some t \<Rightarrow> t | None \<Rightarrow> session_id c)
                                else session_id c)
                   in (accepted,
                       (get_session c)\<lparr>request_id := request_id c + 2, session_id := token\<rparr>,
                       w\<lparr>sent := sent w @ [info_call, login_call]\<rparr>))"

text \<open>
  The frame of every operation: host, password and base URL stay, the device is the same,
  the request counter does not decrease, and the bodies posted meanwhile carry exactly the
  request ids between the old and the new counter, in order.
\<close>

definition advances :: "client \<times> world \<Rightarrow> client \<times> world \<Rightarrow> bool" where
  "advances s s' =
     (case (s, s') of ((c, w), (c', w')) \<Rightarrow>
        host c' = host c \<and> password c' = password c \<and> base_url c' = base_url c
        \<and> replies w' = replies w
        \<and> request_id c \<le> request_id c'
        \<and> sent w' = sent w @ drop (length (sent w)) (sent w')
        \<and> concat (map body_ids (drop (length (sent w)) (sent w')))
            = [request_id c..request_id c' - 1])"

section \<open>Concrete inputs\<close>

text \<open>Response items of the device, and a client that has logged in with token \<^verbatim>\<open>T1\<close>.\<close>

definition access_denied_item :: json where
  "access_denied_item = JObj [(''error'', JObj [(''code'', JInt (- 32002)), (''message'', JStr ''Access denied'')])]"

definition payload_item :: "json \<Rightarrow> json" where
  "payload_item v = JObj [(''result'', JArr [JInt 0, v])]"

definition logged_in :: client where
  "logged_in = (init ''192.168.0.1'' (Some ''pass''))\<lparr>session_id := JStr ''T1''\<rparr>"

text \<open>A client with a password that has not logged in, the reply to the login-info call
  that carries the salt \<^verbatim>\<open>ab12\<close>, and a stand-in for the hash function in concrete
  runs.\<close>

definition fresh_client :: client where
  "fresh_client = init ''192.168.0.1'' (Some ''pass'')"

definition salt_reply :: "py_error + json" where
  "salt_reply = Inr (JArr [payload_item (JObj [(''zte_web_sault'', JStr ''ab12'')])])"

definition login_reply :: "json \<Rightarrow> py_error + json" where
  "login_reply v = Inr (JArr [payload_item v])"

definition stub_sha256 :: "string \<Rightarrow> string" where
  "stub_sha256 s = ''c0ffee'' @ s"

section \<open>Requests\<close>

lemma get_session_fields [simp]:
  "host (get_session c) = host c" "password (get_session c) = password c"
  "base_url (get_session c) = base_url c" "session_id (get_session c) = session_id c"
  "request_id (get_session c) = request_id c"
  by (simp_all add: get_session_def)

lemma create_rpc_request_eq:
  "create_rpc_request c cl =
     (envelope (session_id c) (request_id c) cl, c\<lparr>request_id := request_id c + 1\<rparr>)"
  by (cases cl) (simp add: create_rpc_request_def envelope_def Let_def)

lemma create_requests_eq:
  "create_requests c cls =
     (envelopes (session_id c) (request_id c) cls,
      c\<lparr>request_id := request_id c + int (length cls)\<rparr>)"
proof (induction cls arbitrary: c)
  case Nil
  show ?case by simp
next
  case (Cons cl cls)
  show ?case by (simp add: create_rpc_request_eq Cons.IH add.commute add.left_commute)
qed

lemma call_api_eq:
  "call_api c w cl =
     (payload (replies w (length (sent w))),
      (get_session c)\<lparr>request_id := request_id c + 1\<rparr>,
      w\<lparr>sent := sent w @ [JArr [envelope (session_id c) (request_id c) cl]]\<rparr>)"
  by (simp add: call_api_def create_rpc_request_eq post_def)

lemma envelope_id_envelope [simp]: "envelope_id (envelope token n cl) = [n]"
  by (cases cl) (simp add: envelope_def)

lemma envelopes_ids: "concat (map envelope_id (envelopes token n cls)) = [n..n + int (length cls) - 1]"
proof (induction cls arbitrary: n)
  case Nil
  show ?case by simp
next
  case (Cons cl cls)
  have "n # [n + 1..n + int (length cls)] = [n..n + int (length cls)]"
    by (simp add: upto_rec1)
  with Cons.IH [of "n + 1"] show ?case by (simp add: add.commute add.left_commute)
qed

lemma length_envelopes [simp]: "length (envelopes token n cls) = length cls"
  by (induction cls arbitrary: n) simp_all

lemma nth_envelopes:
  "i < length cls \<Longrightarrow> envelopes token n cls ! i = envelope token (n + int i) (cls ! i)"
proof (induction cls arbitrary: n i)
  case Nil
  then show ?case by simp
next
  case (Cons cl cls)
  show ?case
  proof (cases i)
    case 0
    then show ?thesis by simp
  next
    case (Suc j)
    with Cons.prems have "j < length cls" by simp
    from Cons.IH [OF this, of "n + 1"] Suc show ?thesis by (simp add: add.assoc)
  qed
qed

section \<open>The single call\<close>

lemma payload_failure: "payload (Inl e) = JNull"
  by (simp add: payload_def call_api_try_def)

lemma payload_not_array: "\<forall>items. data \<noteq> JArr items \<Longrightarrow> payload (Inr data) = JNull"
  by (cases data) (auto simp: payload_def call_api_try_def)

lemma payload_empty: "payload (Inr (JArr [])) = JNull"
  by (simp add: payload_def call_api_try_def)

lemma payload_usable:
  "result_array item = Some rs \<Longrightarrow> payload (Inr (JArr (item # rest))) = rs ! 1"
  by (cases item)
     (auto simp: payload_def call_api_try_def split: option.splits json.splits if_splits)

lemma payload_unusable:
  "result_array item = None \<Longrightarrow> payload (Inr (JArr (item # rest))) = JNull"
  by (cases item)
     (auto simp: payload_def call_api_try_def split: option.splits json.splits if_splits)

text \<open>
  Claim C9. \<^verbatim>\<open>_call_api\<close> is a total function of the reply: the handler of its
  \<^verbatim>\<open>try\<close> turns every exception into \<^verbatim>\<open>None\<close>, so nothing is raised to the caller.
  It returns \<^verbatim>\<open>None\<close> when the reply is an exception (a transport failure, or a status
  on which \<^verbatim>\<open>raise_for_status\<close> raises), on a body that is not an array, on an empty
  array, and on a first item without a result array of at least two elements; when the
  first item has such an array, it returns the element at index 1.
\<close>

theorem call_api_payload:
  assumes "call_api c w cl = (r, c', w')"
  shows "(\<forall>e. replies w (length (sent w)) = Inl e \<longrightarrow> r = JNull)
       \<and> (\<forall>data. replies w (length (sent w)) = Inr data \<longrightarrow> (\<forall>items. data \<noteq> JArr items) \<longrightarrow> r = JNull)
       \<and> (replies w (length (sent w)) = Inr (JArr []) \<longrightarrow> r = JNull)
       \<and> (\<forall>item rest. replies w (length (sent w)) = Inr (JArr (item # rest)) \<longrightarrow>
             result_array item = None \<longrightarrow> r = JNull)
       \<and> (\<forall>item rest rs. replies w (length (sent w)) = Inr (JArr (item # rest)) \<longrightarrow>
             result_array item = Some rs \<longrightarrow> r = rs ! 1)"
proof -
  from assms have r: "r = payload (replies w (length (sent w)))"
    by (simp add: call_api_eq)
  show ?thesis
    unfolding r
    by (auto simp: payload_failure payload_not_array payload_empty payload_usable payload_unusable)
qed

theorem call_api_payload_witness:
  "fst (call_api (init ''192.168.0.1'' None)
         (device [Inr (JArr [JObj [(''result'', JArr [JInt 0, JObj [(''zte_web_sault'', JStr ''ab12'')]])]])])
         (''zwrt_web'', ''web_login_info'', None))
     = JObj [(''zte_web_sault'', JStr ''ab12'')]
   \<and> fst (call_api (init ''192.168.0.1'' None)
         (device [Inl (ClientResponseError 500)])
         (''zwrt_web'', ''web_login_info'', None)) = JNull"
proof -
  let ?c = "init ''192.168.0.1'' None"
  let ?cl = "(''zwrt_web'', ''web_login_info'', None)"
  let ?item = "JObj [(''result'', JArr [JInt 0, JObj [(''zte_web_sault'', JStr ''ab12'')]])]"
  let ?w1 = "device [Inr (JArr [?item])]"
  let ?w2 = "device [Inl (ClientResponseError 500)]"
  have a: "call_api ?c ?w1 ?cl = (fst (call_api ?c ?w1 ?cl), fst (snd (call_api ?c ?w1 ?cl)), snd (snd (call_api ?c ?w1 ?cl)))"
    by simp
  have b: "call_api ?c ?w2 ?cl = (fst (call_api ?c ?w2 ?cl), fst (snd (call_api ?c ?w2 ?cl)), snd (snd (call_api ?c ?w2 ?cl)))"
    by simp
  have r1: "replies ?w1 (length (sent ?w1)) = Inr (JArr (?item # []))"
    by (simp add: device_def scripted_def)
  have r2: "replies ?w2 (length (sent ?w2)) = Inl (ClientResponseError 500)"
    by (simp add: device_def scripted_def)
  have ra: "result_array ?item = Some [JInt 0, JObj [(''zte_web_sault'', JStr ''ab12'')]]"
    by simp
  from call_api_payload [OF a] r1 ra
  have "fst (call_api ?c ?w1 ?cl) = [JInt 0, JObj [(''zte_web_sault'', JStr ''ab12'')]] ! 1"
    by blast
  moreover from call_api_payload [OF b] r2 have "fst (call_api ?c ?w2 ?cl) = JNull"
    by blast
  ultimately show ?thesis by simp
qed

section \<open>The frame of the operations\<close>

lemma upto_join: "a \<le> b \<Longrightarrow> b \<le> c \<Longrightarrow> [a..b - 1] @ [b..c - 1] = [a..c - (1::int)]"
proof (cases "a = b")
  case True
  then show ?thesis by simp
next
  case False
  assume "a \<le> b" "b \<le> c"
  with False have "a \<le> b - 1" "b - 1 \<le> c - 1" by simp_all
  from upto_split2 [OF this] show ?thesis by simp
qed

lemma advances_refl: "advances s s"
  by (cases s) (simp add: advances_def)

lemma advances_trans:
  assumes "advances s s'" and "advances s' s''"
  shows "advances s s''"
proof -
  obtain c w c' w' c'' w'' where s: "s = (c, w)" "s' = (c', w')" "s'' = (c'', w'')"
    by (cases s, cases s', cases s'') auto
  let ?n = "length (sent w)"
  let ?n' = "length (sent w')"
  from assms s have a: "sent w' = sent w @ drop ?n (sent w')"
    and b: "sent w'' = sent w' @ drop ?n' (sent w'')"
    and ia: "concat (map body_ids (drop ?n (sent w'))) = [request_id c..request_id c' - 1]"
    and ib: "concat (map body_ids (drop ?n' (sent w''))) = [request_id c'..request_id c'' - 1]"
    and le: "request_id c \<le> request_id c'" "request_id c' \<le> request_id c''"
    and fr: "host c'' = host c" "password c'' = password c" "base_url c'' = base_url c"
            "replies w'' = replies w"
    by (simp_all add: advances_def)
  from a have len: "?n \<le> ?n'"
    by (metis le_add1 length_append)
  have d: "drop ?n (sent w'') = drop ?n (sent w') @ drop ?n' (sent w'')"
    using b len by (metis drop_append diff_is_0_eq drop0)
  have "sent w'' = sent w @ drop ?n (sent w'')"
    using a b d by (metis append.assoc)
  moreover have "concat (map body_ids (drop ?n (sent w''))) = [request_id c..request_id c'' - 1]"
    using d ia ib upto_join [OF le] by simp
  ultimately show ?thesis using s fr le by (simp add: advances_def)
qed

lemma advances_post:
  assumes "host c' = host c" "password c' = password c" "base_url c' = base_url c"
    and "request_id c \<le> request_id c'"
    and "body_ids body = [request_id c..request_id c' - 1]"
  shows "advances (c, w) (c', w\<lparr>sent := sent w @ [body]\<rparr>)"
  using assms by (simp add: advances_def)

lemma advances_call_api: "advances (c, w) (snd (call_api c w cl))"
  by (simp add: call_api_eq advances_post)

lemma call_api_token: "session_id (fst (snd (call_api c w cl))) = session_id c"
  by (simp add: call_api_eq)

lemma call_api_batch_try_client:
  "call_api_batch_try c n reply = Inr (results, c') \<Longrightarrow>
     c' = c \<or> c' = c\<lparr>session_id := JStr UNAUTHENTICATED_SESSION\<rparr>"
  by (auto simp: call_api_batch_try_def split: sum.splits json.splits if_splits)

lemma call_api_batch_state:
  "\<exists>token. (token = session_id c \<or> token = JStr UNAUTHENTICATED_SESSION)
     \<and> snd (call_api_batch c w calls) =
         ((get_session c)\<lparr>request_id := request_id c + int (length calls), session_id := token\<rparr>,
          w\<lparr>sent := sent w @ [JArr (envelopes (session_id c) (request_id c) calls)]\<rparr>)"
proof -
  let ?c2 = "(get_session c)\<lparr>request_id := request_id c + int (length calls)\<rparr>"
  let ?w' = "w\<lparr>sent := sent w @ [JArr (envelopes (session_id c) (request_id c) calls)]\<rparr>"
  let ?t = "call_api_batch_try ?c2 (length calls) (replies w (length (sent w)))"
  show ?thesis
  proof (cases ?t)
    case (Inl err)
    then have "snd (call_api_batch c w calls) = (?c2, ?w')"
      by (simp add: call_api_batch_def create_requests_eq post_def)
    then show ?thesis by (intro exI [of _ "session_id c"]) simp
  next
    case (Inr p)
    obtain results c3 where p: "p = (results, c3)" by (cases p)
    with Inr have s: "snd (call_api_batch c w calls) = (c3, ?w')"
      by (simp add: call_api_batch_def create_requests_eq post_def)
    from call_api_batch_try_client [OF Inr [unfolded p]]
    show ?thesis
    proof
      assume "c3 = ?c2"
      with s show ?thesis by (intro exI [of _ "session_id c"]) simp
    next
      assume "c3 = ?c2\<lparr>session_id := JStr UNAUTHENTICATED_SESSION\<rparr>"
      with s show ?thesis by (intro exI [of _ "JStr UNAUTHENTICATED_SESSION"]) simp
    qed
  qed
qed

lemma advances_call_api_batch: "advances (c, w) (snd (call_api_batch c w calls))"
proof -
  from call_api_batch_state [of c w calls] obtain token where
    "snd (call_api_batch c w calls) =
         ((get_session c)\<lparr>request_id := request_id c + int (length calls), session_id := token\<rparr>,
          w\<lparr>sent := sent w @ [JArr (envelopes (session_id c) (request_id c) calls)]\<rparr>)"
    by blast
  then show ?thesis by (simp add: advances_post envelopes_ids)
qed

lemma advances_token: "advances s (c', w') \<Longrightarrow> advances s (c'\<lparr>session_id := t\<rparr>, w')"
  by (cases s) (simp add: advances_def)

lemma advances_call_api':
  "call_api c w cl = (r, c', w') \<Longrightarrow> advances (c, w) (c', w')"
  using advances_call_api [of c w cl] by simp

lemma advances_async_login_try: "advances (c, w) (snd (async_login_try sha256 pw c w))"
proof -
  obtain login_info c1 w1
    where 1: "call_api c w (''zwrt_web'', ''web_login_info'', None) = (login_info, c1, w1)"
    by (cases "call_api c w (''zwrt_web'', ''web_login_info'', None)")
  have a1: "advances (c, w) (c1, w1)"
    by (rule advances_call_api' [OF 1])
  have a2: "advances (c, w) (c2, w2)" if "call_api c1 w1 cl = (r, c2, w2)" for cl r c2 w2
    by (rule advances_trans [OF a1 advances_call_api' [OF that]])
  have a3: "advances (c, w) (c2\<lparr>session_id := t\<rparr>, w2)"
    if "call_api c1 w1 cl = (r, c2, w2)" for cl r c2 w2 t
    by (rule advances_token [OF a2 [OF that]])
  have a4: "advances (c, w) (snd (login_result_check r c2 w2))"
    if "call_api c1 w1 cl = (r, c2, w2)" for cl r c2 w2
    using a2 [OF that] a3 [OF that]
    by (auto simp: login_result_check_def split: sum.splits)
  show ?thesis
    unfolding async_login_try_def Let_def 1
    by (auto split: prod.splits sum.splits if_splits intro: a1 a4)
qed

lemma advances_async_login: "advances (c, w) (snd (async_login sha256 c w))"
proof (cases "password c")
  case None
  then show ?thesis by (simp add: async_login_def advances_refl)
next
  case (Some pw)
  show ?thesis
  proof (cases "pw = []")
    case True
    with Some show ?thesis by (simp add: async_login_def advances_refl)
  next
    case False
    obtain r c' w' where t: "async_login_try sha256 pw c w = (r, c', w')"
      by (cases "async_login_try sha256 pw c w")
    with advances_async_login_try [of c w sha256 pw] have "advances (c, w) (c', w')" by simp
    with Some False t show ?thesis by (cases r) (simp_all add: async_login_def)
  qed
qed

lemma advances_update_login: "advances (c, w) (snd (update_login sha256 c w))"
proof -
  obtain ok c1 w1 where l: "async_login sha256 c w = (ok, c1, w1)"
    by (cases "async_login sha256 c w")
  with advances_async_login [of c w sha256] have "advances (c, w) (c1, w1)" by simp
  then show ?thesis
    by (auto simp: update_login_def l advances_refl split: sum.splits)
qed

lemma advances_async_update: "advances (c, w) (snd (async_update sha256 c w))"
proof -
  obtain r c1 w1 where l: "update_login sha256 c w = (r, c1, w1)"
    by (cases "update_login sha256 c w")
  with advances_update_login [of c w sha256] have a: "advances (c, w) (c1, w1)" by simp
  have b: "advances (c, w) (snd (call_api_batch c1 w1 calls))" for calls
    by (rule advances_trans [OF a advances_call_api_batch])
  show ?thesis
  proof (cases r)
    case (Inl err)
    with l a show ?thesis by (simp add: async_update_def)
  next
    case (Inr u)
    show ?thesis
    proof (cases "py_prefix8 (session_id c1)")
      case (Inl err)
      with l Inr a show ?thesis by (simp add: async_update_def)
    next
      case (Inr shown)
      with l \<open>r = Inr u\<close> b show ?thesis
        by (simp add: async_update_def Let_def split: prod.splits)
           (metis snd_conv)
    qed
  qed
qed

lemma advances_close: "advances (c, w) (close c, w)"
  by (simp add: advances_def close_def)

lemma advances_exec: "advances s (exec sha256 op s)"
  by (cases s; cases op)
     (simp_all add: advances_call_api advances_call_api_batch advances_async_login
        advances_async_update advances_close)

lemma advances_run: "advances s (run sha256 ops s)"
proof (induction ops arbitrary: s)
  case Nil
  show ?case by (simp add: advances_refl)
next
  case (Cons op ops)
  from advances_trans [OF advances_exec Cons.IH] show ?case by simp
qed

section \<open>The batch call\<close>

lemma batch_loop_Inr:
  "batch_loop items results n = Inr (rs, m) \<Longrightarrow>
     m = n + expiry_signals items \<and> length rs = length results + length items"
proof (induction items arbitrary: results n)
  case Nil
  then show ?case by (simp add: expiry_signals_def)
next
  case (Cons item items)
  from Cons.prems show ?case
    by (cases item)
       (auto simp: expiry_signals_def dest!: Cons.IH
             split: option.splits sum.splits json.splits if_splits)
qed

lemma batch_loop_completes:
  "list_all error_is_object items \<Longrightarrow>
     \<exists>rs. batch_loop items results n = Inr (rs, n + expiry_signals items)"
proof (induction items arbitrary: results n)
  case Nil
  then show ?case by (simp add: expiry_signals_def)
next
  case (Cons item items)
  from Cons.prems have rest: "list_all error_is_object items" by simp
  note ih = Cons.IH [OF rest, unfolded expiry_signals_def]
  note ih' = ih [of _ "Suc n", simplified]
  from Cons.prems have "error_is_object item" by simp
  then show ?case
    by (cases item)
       (auto simp: expiry_signals_def ih ih'
             split: option.splits sum.splits json.splits if_splits)
qed

lemma call_api_batch_eq:
  "call_api_batch c w calls =
     (case call_api_batch_try
             ((get_session c)\<lparr>request_id := request_id c + int (length calls)\<rparr>)
             (length calls) (replies w (length (sent w))) of
        Inl err \<Rightarrow>
          (replicate (length calls) JNull,
           (get_session c)\<lparr>request_id := request_id c + int (length calls)\<rparr>,
           w\<lparr>sent := sent w @ [JArr (envelopes (session_id c) (request_id c) calls)]\<rparr>)
      | Inr (results, c3) \<Rightarrow>
          (results, c3,
           w\<lparr>sent := sent w @ [JArr (envelopes (session_id c) (request_id c) calls)]\<rparr>))"
  by (simp add: call_api_batch_def create_requests_eq post_def Let_def split: sum.splits prod.splits)

text \<open>
  The expiry policy where the loop completes. Let the response of a batch be an array. If
  every \<^verbatim>\<open>error\<close> member among its items is an object, at least two items are expiry
  signals, and the token is not the sentinel, then the token is the sentinel after the
  call. If fewer than two items are expiry signals, the token is unchanged.
\<close>

lemma batch_expiry_reset:
  assumes "replies w (length (sent w)) = Inr (JArr items)"
    and "call_api_batch c w calls = (results, c', w')"
  shows "(list_all error_is_object items \<and> 2 \<le> expiry_signals items
            \<and> session_id c \<noteq> JStr UNAUTHENTICATED_SESSION
          \<longrightarrow> session_id c' = JStr UNAUTHENTICATED_SESSION)
       \<and> (expiry_signals items < 2 \<longrightarrow> session_id c' = session_id c)"
proof (intro conjI impI)
  assume h: "list_all error_is_object items \<and> 2 \<le> expiry_signals items
            \<and> session_id c \<noteq> JStr UNAUTHENTICATED_SESSION"
  then obtain rs where "batch_loop items [] 0 = Inr (rs, 0 + expiry_signals items)"
    using batch_loop_completes [of items "[]" 0] by blast
  with h assms show "session_id c' = JStr UNAUTHENTICATED_SESSION"
    by (auto simp: call_api_batch_eq call_api_batch_try_def)
next
  assume few: "expiry_signals items < 2"
  show "session_id c' = session_id c"
  proof (cases "batch_loop items [] 0")
    case (Inl err)
    with assms show ?thesis
      by (auto simp: call_api_batch_eq call_api_batch_try_def)
  next
    case (Inr p)
    obtain rs m where p: "p = (rs, m)" by (cases p)
    from batch_loop_Inr [OF Inr [unfolded p]] few have "m < 2" by simp
    with Inr p assms show ?thesis
      by (auto simp: call_api_batch_eq call_api_batch_try_def)
  qed
qed

text \<open>The scenario of the specification: two expiry signals among five items.\<close>

lemma batch_expiry_reset_scenario:
  "session_id (fst (snd (call_api_batch logged_in
           (device [Inr (JArr [payload_item (JObj [(''a'', JInt 1)]), access_denied_item, access_denied_item,
                               payload_item (JObj [(''b'', JInt 1)]), payload_item (JObj [(''c'', JInt 1)])])])
           (update_calls ''router_get_status'')))) = JStr UNAUTHENTICATED_SESSION"
proof -
  let ?items = "[payload_item (JObj [(''a'', JInt 1)]), access_denied_item, access_denied_item,
                               payload_item (JObj [(''b'', JInt 1)]), payload_item (JObj [(''c'', JInt 1)])]"
  let ?w = "device [Inr (JArr ?items)]"
  let ?r = "call_api_batch logged_in ?w (update_calls ''router_get_status'')"
  have r: "replies ?w (length (sent ?w)) = Inr (JArr ?items)"
    by (simp add: device_def scripted_def)
  have e: "?r = (fst ?r, fst (snd ?r), snd (snd ?r))" by simp
  have h: "list_all error_is_object ?items \<and> 2 \<le> expiry_signals ?items
            \<and> session_id logged_in \<noteq> JStr UNAUTHENTICATED_SESSION"
    by (simp add: access_denied_item_def payload_item_def expiry_signals_def logged_in_def
          UNAUTHENTICATED_SESSION_def)
  from batch_expiry_reset [OF r e] h show ?thesis by blast
qed

text \<open>
  Claim C1 fails on the code: two expiry signals followed by an item whose \<^verbatim>\<open>error\<close>
  member is a string. \<^verbatim>\<open>item["error"].get\<close> raises \<^verbatim>\<open>AttributeError\<close>, the loop is
  left for the handler of the \<^verbatim>\<open>try\<close>, and the token \<^verbatim>\<open>T1\<close> is kept, although
  the response holds two expiry signals and the token is not the sentinel. The source
  means to tolerate such items: an item that is not an object gives \<^verbatim>\<open>None\<close> and the
  loop goes on, other errors are to be logged as warnings, and the reset is to follow
  access denied on several calls.
\<close>

theorem batch_expiry_aborted:
  "2 \<le> expiry_signals [access_denied_item, access_denied_item, JObj [(''error'', JStr ''denied'')]]
   \<and> session_id logged_in \<noteq> JStr UNAUTHENTICATED_SESSION
   \<and> session_id (fst (snd (call_api_batch logged_in
           (device [Inr (JArr [access_denied_item, access_denied_item,
                               JObj [(''error'', JStr ''denied'')]])])
           (update_calls ''router_get_status'')))) \<noteq> JStr UNAUTHENTICATED_SESSION"
  by (simp add: call_api_batch_eq call_api_batch_try_def device_def scripted_def logged_in_def
        init_def access_denied_item_def UNAUTHENTICATED_SESSION_def expiry_signals_def)


section \<open>Login\<close>

lemma upper_char_idem: "upper_char (upper_char ch) = upper_char ch"
proof (cases "97 \<le> (of_char ch :: nat) \<and> (of_char ch :: nat) \<le> 122")
  case True
  then have u: "upper_char ch = char_of (of_char ch - 32 :: nat)"
    by (simp add: upper_char_def)
  from True have "(of_char ch - 32 :: nat) < 256"
    by arith
  then have "(of_char ch - 32 :: nat) mod 256 = of_char ch - 32"
    by (rule mod_less)
  then have "(of_char (char_of (of_char ch - 32 :: nat)) :: nat) = of_char ch - 32"
    by simp
  with True have "upper_char (char_of (of_char ch - 32 :: nat)) = char_of (of_char ch - 32 :: nat)"
    unfolding upper_char_def Let_def by (simp, arith)
  with u show ?thesis by simp
next
  case False
  then have "upper_char ch = ch" by (auto simp: upper_char_def)
  then show ?thesis by simp
qed

lemma upper_idem: "upper (upper s) = upper s"
  by (simp add: upper_def upper_char_idem)

lemma get_session_idem [simp]:
  "get_session (get_session c\<lparr>request_id := n\<rparr>) = get_session c\<lparr>request_id := n\<rparr>"
  by (simp add: get_session_def)

lemma salt_of_None_obj:
  "salt_of (JObj kvs) = None \<Longrightarrow> map_of kvs ''zte_web_sault'' = Some v \<Longrightarrow>
     py_concat h v = Inl TypeError"
  by (cases v) (simp_all add: salt_of_def)

lemma salt_of_Some:
  assumes "salt_of info = Some salt"
  shows "\<exists>kvs. info = JObj kvs \<and> kvs \<noteq> [] \<and> map_of kvs ''zte_web_sault'' = Some (JStr salt)"
proof (cases info)
  case (JObj kvs)
  with assms have "map_of kvs ''zte_web_sault'' = Some (JStr salt)"
    by (simp add: salt_of_def split: option.splits json.splits)
  moreover from this have "kvs \<noteq> []" by auto
  ultimately show ?thesis using JObj by simp
qed (use assms in \<open>simp_all add: salt_of_def\<close>)

lemma async_login_try_no_salt:
  assumes "salt_of (payload (replies w (length (sent w)))) = None"
  shows "fst (async_login_try sha256 pw c w) \<noteq> Inr True
     \<and> snd (async_login_try sha256 pw c w) =
           ((get_session c)\<lparr>request_id := request_id c + 1\<rparr>,
            w\<lparr>sent := sent w @ [JArr [envelope (session_id c) (request_id c)
                                    (''zwrt_web'', ''web_login_info'', None)]]\<rparr>)"
proof (cases "payload (replies w (length (sent w)))")
  case JNull
  then show ?thesis unfolding async_login_try_def call_api_eq Let_def prod.case by simp
next
  case (JBool b)
  then show ?thesis unfolding async_login_try_def call_api_eq Let_def prod.case by simp
next
  case (JInt i)
  then show ?thesis unfolding async_login_try_def call_api_eq Let_def prod.case by simp
next
  case (JFloat f)
  then show ?thesis unfolding async_login_try_def call_api_eq Let_def prod.case by simp
next
  case (JStr s)
  then show ?thesis unfolding async_login_try_def call_api_eq Let_def prod.case by simp
next
  case (JArr xs)
  then show ?thesis unfolding async_login_try_def call_api_eq Let_def prod.case by simp
next
  case (JObj kvs)
  show ?thesis
  proof (cases "map_of kvs ''zte_web_sault''")
    case None
    with JObj show ?thesis unfolding async_login_try_def call_api_eq Let_def prod.case by simp
  next
    case (Some v)
    from assms JObj Some have t: "py_concat h v = Inl TypeError" for h
      by (simp add: salt_of_None_obj)
    show ?thesis
    proof (cases "encode pw")
      case (Inl err)
      with JObj Some show ?thesis
        unfolding async_login_try_def call_api_eq Let_def prod.case by simp
    next
      case (Inr pw_bytes)
      with JObj Some t show ?thesis
        unfolding async_login_try_def call_api_eq Let_def prod.case by simp
    qed
  qed
qed

lemma login_result_check_obj:
  assumes "kvs \<noteq> []"
  shows "login_result_check (JObj kvs) c w =
     (if py_in (case map_of kvs ''result'' of Some code \<Rightarrow> code | None \<Rightarrow> JNull) [LStr ''0'', LInt 0]
      then (Inr True,
            c\<lparr>session_id := (case map_of kvs ''ubus_rpc_session'' of
                                Some t \<Rightarrow> t | None \<Rightarrow> session_id c)\<rparr>, w)
      else (Inr False, c, w))"
proof (cases "py_in (case map_of kvs ''result'' of Some code \<Rightarrow> code | None \<Rightarrow> JNull) [LStr ''0'', LInt 0]")
  case True
  with assms show ?thesis
    unfolding login_result_check_def by (simp only: truthy.simps py_get.simps sum.case if_True simp_thms)
next
  case False
  with assms show ?thesis
    unfolding login_result_check_def
    by (simp only: truthy.simps py_get.simps sum.case if_True if_False if_cancel simp_thms)
qed

lemma login_result_check_eq:
  "login_result_check res c w =
     (case login_code res of
        None \<Rightarrow> (if truthy res then Inl AttributeError else Inr False, c, w)
      | Some code \<Rightarrow>
          if py_in code [LStr ''0'', LInt 0]
          then (Inr True,
                c\<lparr>session_id := (case member res ''ubus_rpc_session'' of
                                    Some t \<Rightarrow> t | None \<Rightarrow> session_id c)\<rparr>, w)
          else (Inr False, c, w))"
proof (cases res)
  case (JObj kvs)
  show ?thesis
  proof (cases "kvs = []")
    case True
    with JObj show ?thesis by (simp add: login_result_check_def)
  next
    case False
    with JObj login_result_check_obj [OF False, of c w] show ?thesis by simp
  qed
next
  case JNull then show ?thesis by (simp add: login_result_check_def)
next
  case (JBool b) then show ?thesis by (simp add: login_result_check_def)
next
  case (JInt i) then show ?thesis by (simp add: login_result_check_def)
next
  case (JFloat f) then show ?thesis by (cases f) (simp_all add: login_result_check_def)
next
  case (JStr s) then show ?thesis by (simp add: login_result_check_def)
next
  case (JArr xs) then show ?thesis by (simp add: login_result_check_def)
qed

lemma async_login_try_undefined:
  assumes "salt_of (payload (replies w (length (sent w)))) = Some salt"
    and "\<not> digest_defined sha256 pw salt"
  shows "fst (async_login_try sha256 pw c w) \<noteq> Inr True
     \<and> snd (async_login_try sha256 pw c w) =
           ((get_session c)\<lparr>request_id := request_id c + 1\<rparr>,
            w\<lparr>sent := sent w @ [JArr [envelope (session_id c) (request_id c)
                                    (''zwrt_web'', ''web_login_info'', None)]]\<rparr>)"
proof -
  from salt_of_Some [OF assms(1)] obtain kvs where
    info: "payload (replies w (length (sent w))) = JObj kvs" "kvs \<noteq> []"
          "map_of kvs ''zte_web_sault'' = Some (JStr salt)"
    by blast
  show ?thesis
  proof (cases "has_surrogate pw")
    case True
    with info show ?thesis
      unfolding async_login_try_def call_api_eq Let_def prod.case
      by (simp add: encode_def)
  next
    case False
    with assms(2) have "has_surrogate (upper (sha256 pw) @ salt)"
      by (simp add: digest_defined_def)
    with False info show ?thesis
      unfolding async_login_try_def call_api_eq Let_def prod.case
      by (simp add: encode_def)
  qed
qed

lemma async_login_try_salted:
  assumes "salt_of (payload (replies w (length (sent w)))) = Some salt"
    and "digest_defined sha256 pw salt"
  shows "async_login_try sha256 pw c w =
     login_result_check (payload (replies w (Suc (length (sent w)))))
       ((get_session c)\<lparr>request_id := request_id c + 2\<rparr>)
       (w\<lparr>sent := sent w @
                [JArr [envelope (session_id c) (request_id c) (''zwrt_web'', ''web_login_info'', None)],
                 JArr [envelope (session_id c) (request_id c + 1)
                         (''zwrt_web'', ''web_login'',
                          Some [(''password'', JStr (login_digest sha256 pw salt))])]]\<rparr>)"
proof -
  from salt_of_Some [OF assms(1)] obtain kvs where
    info: "payload (replies w (length (sent w))) = JObj kvs" "kvs \<noteq> []"
          "map_of kvs ''zte_web_sault'' = Some (JStr salt)"
    by blast
  from assms(2) have e: "\<not> has_surrogate pw" "\<not> has_surrogate (upper (sha256 pw) @ salt)"
    by (simp_all add: digest_defined_def)
  with info show ?thesis
    unfolding async_login_try_def call_api_eq Let_def prod.case
    by (simp add: login_digest_def upper_idem add.commute encode_def)
qed

lemma get_session_same_token [simp]:
  "(get_session c)\<lparr>request_id := n, session_id := session_id c\<rparr> = (get_session c)\<lparr>request_id := n\<rparr>"
  by (simp add: get_session_def)

lemma async_login_authenticate: "async_login sha256 c w = authenticate sha256 c w"
proof (cases "password c")
  case None
  then show ?thesis by (simp add: async_login_def authenticate_def)
next
  case (Some pw)
  show ?thesis
  proof (cases "pw = []")
    case True
    with Some show ?thesis by (simp add: async_login_def authenticate_def)
  next
    case False
    let ?info = "payload (replies w (length (sent w)))"
    let ?res = "payload (replies w (Suc (length (sent w))))"
    show ?thesis
    proof (cases "salt_of ?info")
      case None
      from async_login_try_no_salt [OF None, of sha256 pw c]
      obtain r where r: "r \<noteq> Inr True"
        and t: "async_login_try sha256 pw c w =
           (r, (get_session c)\<lparr>request_id := request_id c + 1\<rparr>,
            w\<lparr>sent := sent w @ [JArr [envelope (session_id c) (request_id c)
                                    (''zwrt_web'', ''web_login_info'', None)]]\<rparr>)"
        by (cases "async_login_try sha256 pw c w") auto
      from r have "(case r of Inl err \<Rightarrow> False | Inr ok \<Rightarrow> ok) = False"
        by (cases r) auto
      with Some False None t show ?thesis
        by (cases r) (simp_all add: async_login_def authenticate_def)
    next
      case (Some salt)
      show ?thesis
      proof (cases "digest_defined sha256 pw salt")
      case undefined: False
      from async_login_try_undefined [OF Some undefined, of c]
      obtain r where r: "r \<noteq> Inr True"
        and t: "async_login_try sha256 pw c w =
           (r, (get_session c)\<lparr>request_id := request_id c + 1\<rparr>,
            w\<lparr>sent := sent w @ [JArr [envelope (session_id c) (request_id c)
                                    (''zwrt_web'', ''web_login_info'', None)]]\<rparr>)"
        by (cases "async_login_try sha256 pw c w") auto
      from r have "(case r of Inl err \<Rightarrow> False | Inr ok \<Rightarrow> ok) = False"
        by (cases r) auto
      with \<open>password c = Some pw\<close> False Some undefined t show ?thesis
        by (cases r) (simp_all add: async_login_def authenticate_def)
      next
      case defined: True
      note s = async_login_try_salted [OF Some defined, of c]
      show ?thesis
      proof (cases "login_code ?res")
        case None
        with \<open>password c = Some pw\<close> False Some defined show ?thesis
          by (simp add: async_login_def authenticate_def s login_result_check_eq)
      next
        case code: (Some code)
        show ?thesis
        proof (cases "py_in code [LStr ''0'', LInt 0]")
          case True
          with code \<open>password c = Some pw\<close> False Some defined show ?thesis
            by (simp add: async_login_def authenticate_def s login_result_check_eq
                  split: option.splits)
        next
          case no: False
          with code \<open>password c = Some pw\<close> False Some defined show ?thesis
            by (simp add: async_login_def authenticate_def s login_result_check_eq)
        qed
      qed
      qed
    qed
  qed
qed


lemma py_in_zero_iff:
  "py_in code [LStr ''0'', LInt 0] \<longleftrightarrow>
     code = JStr ''0'' \<or> code = JInt 0 \<or> code = JBool False
     \<or> (\<exists>f. code = JFloat f \<and> float_eq_int f 0)"
  by (cases code) (auto simp: py_in_def)

lemma salt_reply_salt: "salt_of (payload salt_reply) = Some ''ab12''"
  by (simp add: salt_reply_def payload_item_def payload_def call_api_try_def salt_of_def)

lemma login_reply_payload: "payload (login_reply v) = v"
  by (simp add: login_reply_def payload_item_def payload_def call_api_try_def)

lemma device_replies:
  "replies (device rs) k = scripted rs k" "sent (device rs) = []"
  by (simp_all add: device_def)

lemma pass_digest_defined: "digest_defined stub_sha256 ''pass'' ''ab12''"
  by (simp add: digest_defined_def stub_sha256_def upper_def upper_char_def)

lemma surrogate_suffix: "has_surrogate (h @ [CHR 0xED, CHR 0xA0, CHR 0x80])"
  by (induction h rule: has_surrogate.induct) simp_all



text \<open>A salt with a lone surrogate: only the login-info call is posted, and the login
  fails.\<close>

lemma login_surrogate_salt:
  "async_login stub_sha256 fresh_client
     (device [Inr (JArr [payload_item (JObj [(''zte_web_sault'',
                                               JStr [CHR 0xED, CHR 0xA0, CHR 0x80])])])])
   = (False, (get_session fresh_client)\<lparr>request_id := 2\<rparr>,
      \<lparr>replies = scripted [Inr (JArr [payload_item (JObj [(''zte_web_sault'',
                                               JStr [CHR 0xED, CHR 0xA0, CHR 0x80])])])],
       sent = [JArr [envelope (JStr UNAUTHENTICATED_SESSION) 1
                       (''zwrt_web'', ''web_login_info'', None)]]\<rparr>)"
proof -
  have "\<not> digest_defined stub_sha256 ''pass'' [CHR 0xED, CHR 0xA0, CHR 0x80]"
    using surrogate_suffix [of "upper (stub_sha256 ''pass'')"]
    by (simp add: digest_defined_def)
  then show ?thesis
    by (simp add: async_login_authenticate authenticate_def device_def scripted_def
          payload_item_def payload_def call_api_try_def salt_of_def fresh_client_def init_def)
qed

text \<open>
  Claim C4, as amended. \<^verbatim>\<open>async_login\<close> is total: the handler of its \<^verbatim>\<open>try\<close> turns
  every exception into \<^verbatim>\<open>False\<close>. Whenever it returns false the token is unchanged;
  it returns false without a credential, without a salt (which includes a failed
  transport), and when the credential or the salted digest cannot be encoded. With a
  credential, a salt and a digest, a login payload that is not a non-empty object is
  refused; otherwise the result code decides: a code that Python compares equal to
  \<^verbatim>\<open>"0"\<close> or \<^verbatim>\<open>0\<close>, namely the string \<^verbatim>\<open>"0"\<close>, the integer 0, a float
  equal to 0 or the boolean false, is accepted, and the token becomes the
  \<^verbatim>\<open>ubus_rpc_session\<close> member of the payload, or stays when there is none; every
  other code, 1 and 2 among them, is refused.
\<close>

theorem async_login_verdict:
  assumes "async_login sha256 c w = (ok, c', w')"
  shows "(\<not> ok \<longrightarrow> session_id c' = session_id c)
     \<and> (password c = None \<or> password c = Some [] \<longrightarrow> \<not> ok)
     \<and> (salt_of (payload (replies w (length (sent w)))) = None \<longrightarrow> \<not> ok)
     \<and> (\<forall>pw salt. password c = Some pw
            \<and> salt_of (payload (replies w (length (sent w)))) = Some salt
            \<and> \<not> digest_defined sha256 pw salt \<longrightarrow> \<not> ok)
     \<and> (\<forall>pw salt. password c = Some pw \<and> pw \<noteq> []
            \<and> salt_of (payload (replies w (length (sent w)))) = Some salt
            \<and> digest_defined sha256 pw salt \<longrightarrow>
          (case login_code (payload (replies w (Suc (length (sent w))))) of
             None \<Rightarrow> \<not> ok
           | Some code \<Rightarrow>
               if code = JStr ''0'' \<or> code = JInt 0 \<or> code = JBool False
                  \<or> (\<exists>f. code = JFloat f \<and> float_eq_int f 0)
               then ok \<and> session_id c' =
                      (case member (payload (replies w (Suc (length (sent w))))) ''ubus_rpc_session'' of
                         Some token \<Rightarrow> token | None \<Rightarrow> session_id c)
               else \<not> ok))"
proof -
  from assms have a: "authenticate sha256 c w = (ok, c', w')"
    by (simp add: async_login_authenticate)
  have 1: "\<not> ok \<longrightarrow> session_id c' = session_id c"
    using a by (auto simp: authenticate_def Let_def split: option.splits if_splits)
  have 2: "password c = None \<or> password c = Some [] \<longrightarrow> \<not> ok"
    using a by (auto simp: authenticate_def)
  have 3: "salt_of (payload (replies w (length (sent w)))) = None \<longrightarrow> \<not> ok"
    using a by (auto simp: authenticate_def Let_def split: option.splits if_splits)
  have 4: "\<forall>pw salt. password c = Some pw
            \<and> salt_of (payload (replies w (length (sent w)))) = Some salt
            \<and> \<not> digest_defined sha256 pw salt \<longrightarrow> \<not> ok"
    using a by (auto simp: authenticate_def Let_def split: option.splits if_splits)
  have 5: "\<forall>pw salt. password c = Some pw \<and> pw \<noteq> []
            \<and> salt_of (payload (replies w (length (sent w)))) = Some salt
            \<and> digest_defined sha256 pw salt \<longrightarrow>
          (case login_code (payload (replies w (Suc (length (sent w))))) of
             None \<Rightarrow> \<not> ok
           | Some code \<Rightarrow>
               if code = JStr ''0'' \<or> code = JInt 0 \<or> code = JBool False
                  \<or> (\<exists>f. code = JFloat f \<and> float_eq_int f 0)
               then ok \<and> session_id c' =
                      (case member (payload (replies w (Suc (length (sent w))))) ''ubus_rpc_session'' of
                         Some token \<Rightarrow> token | None \<Rightarrow> session_id c)
               else \<not> ok)"
    unfolding py_in_zero_iff [symmetric]
    using a by (auto simp: authenticate_def Let_def split: option.splits)
  from 1 2 3 4 5 show ?thesis by blast
qed

text \<open>
  A login accepted with result code \<^verbatim>\<open>"0"\<close> and session \<^verbatim>\<open>T1\<close>.
\<close>

theorem async_login_verdict_witness:
  "fst (async_login stub_sha256 fresh_client
          (device [salt_reply,
                   login_reply (JObj [(''result'', JStr ''0''), (''ubus_rpc_session'', JStr ''T1'')])]))
   \<and> session_id (fst (snd (async_login stub_sha256 fresh_client
          (device [salt_reply,
                   login_reply (JObj [(''result'', JStr ''0''), (''ubus_rpc_session'', JStr ''T1'')])]))))
       = JStr ''T1''"
proof -
  let ?res = "JObj [(''result'', JStr ''0''), (''ubus_rpc_session'', JStr ''T1'')]"
  let ?w = "device [salt_reply, login_reply ?res]"
  let ?r = "async_login stub_sha256 fresh_client ?w"
  have e: "?r = (fst ?r, fst (snd ?r), snd (snd ?r))" by simp
  have p: "password fresh_client = Some ''pass'' \<and> ''pass'' \<noteq> []
        \<and> salt_of (payload (replies ?w (length (sent ?w)))) = Some ''ab12''
        \<and> digest_defined stub_sha256 ''pass'' ''ab12''"
    by (simp add: fresh_client_def init_def device_replies scripted_def salt_reply_salt
          pass_digest_defined)
  have r: "payload (replies ?w (Suc (length (sent ?w)))) = ?res"
    by (simp add: device_replies scripted_def login_reply_payload)
  from async_login_verdict [OF e] p
  have "case login_code (payload (replies ?w (Suc (length (sent ?w))))) of
             None \<Rightarrow> \<not> fst ?r
           | Some code \<Rightarrow>
               if code = JStr ''0'' \<or> code = JInt 0 \<or> code = JBool False
                  \<or> (\<exists>f. code = JFloat f \<and> float_eq_int f 0)
               then fst ?r \<and> session_id (fst (snd ?r)) =
                      (case member (payload (replies ?w (Suc (length (sent ?w))))) ''ubus_rpc_session'' of
                         Some token \<Rightarrow> token | None \<Rightarrow> session_id fresh_client)
               else \<not> fst ?r"
    by blast
  then show ?thesis unfolding r by simp
qed

text \<open>
  Claim C4 as stated fails: the result code \<^verbatim>\<open>false\<close> is none of 0, 1, 2 as a string
  or an integer, yet \<^verbatim>\<open>False in ("0", 0)\<close> holds in Python, the login is accepted and
  the token changes.
\<close>

theorem async_login_false_code_counterexample:
  "JBool False \<notin> set [JInt 0, JStr ''0'', JInt 1, JStr ''1'', JInt 2, JStr ''2'']
   \<and> fst (async_login stub_sha256 fresh_client
          (device [salt_reply,
                   login_reply (JObj [(''result'', JBool False), (''ubus_rpc_session'', JStr ''T1'')])]))
   \<and> session_id (fst (snd (async_login stub_sha256 fresh_client
          (device [salt_reply,
                   login_reply (JObj [(''result'', JBool False), (''ubus_rpc_session'', JStr ''T1'')])]))))
       \<noteq> session_id fresh_client"
  using pass_digest_defined
  by (simp add: async_login_authenticate authenticate_def device_replies scripted_def
        salt_reply_salt login_reply_payload fresh_client_def init_def py_in_def
        UNAUTHENTICATED_SESSION_def)

section \<open>Request ids and the frame\<close>

lemma advances_fields:
  "advances (c, w) (c', w') \<Longrightarrow>
     host c' = host c \<and> password c' = password c \<and> base_url c' = base_url c"
  by (simp add: advances_def)

lemma sent_ids_upto [simp]: "sorted_wrt (<) [i..j::int]" "distinct [i..j::int]"
  by (simp_all add: sorted_wrt_upto)

text \<open>
  Claim C8. From a new client on, through any sequence of operations against any device,
  the request ids of the envelopes constructed so far, in the order of their construction,
  are 1, 2, ... up to the counter minus one: they start at 1, increase strictly and never
  repeat, whether the POSTs succeed or fail.
\<close>

theorem request_ids_increasing:
  assumes "sent w0 = []" and "run sha256 ops (init h p, w0) = (c, w)"
  shows "sent_ids w = [1..request_id c - 1]
     \<and> sorted_wrt (<) (sent_ids w) \<and> distinct (sent_ids w)"
proof -
  from advances_run [of "(init h p, w0)" sha256 ops] assms
  have "advances (init h p, w0) (c, w)" by simp
  with assms(1) have "sent_ids w = [request_id (init h p)..request_id c - 1]"
    by (simp add: advances_def sent_ids_def)
  then have "sent_ids w = [1..request_id c - 1]" by (simp add: init_def)
  then show ?thesis by (simp add: sorted_wrt_upto)
qed

lemma call_api_batch_token:
  "session_id (fst (snd (call_api_batch c w calls))) = session_id c
   \<or> (session_id (fst (snd (call_api_batch c w calls))) = JStr UNAUTHENTICATED_SESSION
      \<and> (\<exists>items. replies w (length (sent w)) = Inr (JArr items) \<and> 2 \<le> expiry_signals items))"
proof (cases "replies w (length (sent w))")
  case (Inl err)
  then show ?thesis by (simp add: call_api_batch_eq call_api_batch_try_def)
next
  case (Inr data)
  show ?thesis
  proof (cases "\<exists>items. data = JArr items")
    case False
    with Inr show ?thesis
      by (cases data) (simp_all add: call_api_batch_eq call_api_batch_try_def)
  next
    case True
    then obtain items where d: "data = JArr items" by blast
    show ?thesis
    proof (cases "batch_loop items [] 0")
      case (Inl err)
      with Inr d show ?thesis by (simp add: call_api_batch_eq call_api_batch_try_def)
    next
      case loop: (Inr p)
      obtain rs m where p: "p = (rs, m)" by (cases p)
      from batch_loop_Inr [OF loop [unfolded p]] have "m = expiry_signals items" by simp
      with Inr d loop p show ?thesis by (simp add: call_api_batch_eq call_api_batch_try_def)
    qed
  qed
qed

lemma authenticate_token:
  "session_id (fst (snd (authenticate sha256 c w))) = session_id c
   \<or> (fst (authenticate sha256 c w)
      \<and> (\<exists>code. login_code (payload (replies w (Suc (length (sent w))))) = Some code
                \<and> py_in code [LStr ''0'', LInt 0])
      \<and> member (payload (replies w (Suc (length (sent w))))) ''ubus_rpc_session''
          = Some (session_id (fst (snd (authenticate sha256 c w)))))"
  by (auto simp: authenticate_def Let_def split: option.splits)

lemma update_login_token:
  "session_id (fst (snd (update_login sha256 c w))) = session_id c
   \<or> ((\<exists>pw. password c = Some pw \<and> pw \<noteq> [])
      \<and> session_id c = JStr UNAUTHENTICATED_SESSION
      \<and> fst (async_login sha256 c w)
      \<and> (\<exists>code. login_code (payload (replies w (Suc (length (sent w))))) = Some code
                \<and> py_in code [LStr ''0'', LInt 0])
      \<and> member (payload (replies w (Suc (length (sent w))))) ''ubus_rpc_session''
          = Some (session_id (fst (snd (update_login sha256 c w)))))"
proof (cases "truthy (case password c of None \<Rightarrow> JNull | Some pw \<Rightarrow> JStr pw)
         \<and> session_id c = JStr UNAUTHENTICATED_SESSION")
  case False
  then have "update_login sha256 c w = (Inr (), c, w)"
    unfolding update_login_def by (rule if_not_P)
  then show ?thesis by simp
next
  case True
  then have p: "\<exists>pw. password c = Some pw \<and> pw \<noteq> []"
    by (cases "password c") simp_all
  obtain ok c1 w1 where l: "async_login sha256 c w = (ok, c1, w1)"
    by (cases "async_login sha256 c w")
  have "session_id (fst (snd (update_login sha256 c w))) = session_id c1"
    using True l by (simp add: update_login_def split: sum.splits)
  with authenticate_token [of sha256 c w] l True p show ?thesis
    by (auto simp: async_login_authenticate)
qed

lemma update_login_replies: "replies (snd (snd (update_login sha256 c w))) = replies w"
  using advances_update_login [of c w sha256]
  by (cases "update_login sha256 c w") (simp add: advances_def)

lemma async_update_token:
  "session_id (fst (snd (async_update sha256 c w))) = session_id c
   \<or> ((\<exists>pw. password c = Some pw \<and> pw \<noteq> [])
      \<and> session_id c = JStr UNAUTHENTICATED_SESSION
      \<and> fst (async_login sha256 c w)
      \<and> (\<exists>code. login_code (payload (replies w (Suc (length (sent w))))) = Some code
                \<and> py_in code [LStr ''0'', LInt 0])
      \<and> member (payload (replies w (Suc (length (sent w))))) ''ubus_rpc_session''
          = Some (session_id (fst (snd (async_update sha256 c w)))))
   \<or> (session_id (fst (snd (async_update sha256 c w))) = JStr UNAUTHENTICATED_SESSION
      \<and> (\<exists>items. replies w (length (sent (snd (snd (update_login sha256 c w)))))
                     = Inr (JArr items)
                \<and> 2 \<le> expiry_signals items))"
proof -
  obtain r c1 w1 where l: "update_login sha256 c w = (r, c1, w1)"
    by (cases "update_login sha256 c w")
  from update_login_replies [of sha256 c w] l have rw: "replies w1 = replies w" by simp
  let ?login = "(\<exists>pw. password c = Some pw \<and> pw \<noteq> [])
      \<and> session_id c = JStr UNAUTHENTICATED_SESSION
      \<and> fst (async_login sha256 c w)
      \<and> (\<exists>code. login_code (payload (replies w (Suc (length (sent w))))) = Some code
                \<and> py_in code [LStr ''0'', LInt 0])
      \<and> member (payload (replies w (Suc (length (sent w))))) ''ubus_rpc_session''
          = Some (session_id c1)"
  let ?reset = "\<exists>items. replies w (length (sent w1)) = Inr (JArr items)
                \<and> 2 \<le> expiry_signals items"
  from update_login_token [of sha256 c w] l
  have 1: "session_id c1 = session_id c \<or> ?login" by simp
  have 2: "session_id (fst (snd (call_api_batch c1 w1 calls))) = session_id c1
      \<or> (session_id (fst (snd (call_api_batch c1 w1 calls))) = JStr UNAUTHENTICATED_SESSION
         \<and> ?reset)" for calls
    using call_api_batch_token [of c1 w1 calls] rw by simp
  have 3: "snd (async_update sha256 c w) = (c1, w1)
      \<or> (\<exists>calls. snd (async_update sha256 c w) = snd (call_api_batch c1 w1 calls))"
  proof (cases r)
    case (Inl err)
    with l show ?thesis by (simp add: async_update_def)
  next
    case (Inr u)
    show ?thesis
    proof (cases "py_prefix8 (session_id c1)")
      case (Inl err)
      with l Inr show ?thesis by (simp add: async_update_def)
    next
      case shown: (Inr shown)
      let ?calls = "update_calls (if session_id c1 \<noteq> JStr UNAUTHENTICATED_SESSION
                 then ''router_get_status'' else ''router_get_status_no_auth'')"
      have "snd (async_update sha256 c w) = snd (call_api_batch c1 w1 ?calls)"
        using l Inr shown by (simp add: async_update_def Let_def split: prod.splits)
      then show ?thesis by blast
    qed
  qed
  from 3 show ?thesis
  proof
    assume "snd (async_update sha256 c w) = (c1, w1)"
    with 1 show ?thesis by auto
  next
    assume "\<exists>calls. snd (async_update sha256 c w) = snd (call_api_batch c1 w1 calls)"
    then obtain calls where e: "snd (async_update sha256 c w) = snd (call_api_batch c1 w1 calls)"
      by blast
    from 2 [of calls] show ?thesis
    proof
      assume "session_id (fst (snd (call_api_batch c1 w1 calls))) = session_id c1"
      with e 1 show ?thesis by auto
    next
      assume "session_id (fst (snd (call_api_batch c1 w1 calls))) = JStr UNAUTHENTICATED_SESSION
         \<and> ?reset"
      with e l show ?thesis by simp
    qed
  qed
qed

text \<open>
  Claim C10. Every operation leaves host, password and base URL as they were. The token
  changes in two places only: \<^verbatim>\<open>async_login\<close> sets it to the \<^verbatim>\<open>ubus_rpc_session\<close>
  member of the login payload when it succeeds on result code 0, and the batch call resets
  it to the sentinel when the response carries at least two expiry signals. A single call
  and \<^verbatim>\<open>close\<close> never change it. A refresh changes it only through these two: by the
  login it makes when a password is set and the token is the sentinel, under the condition
  of the login, and by its batch, under the condition of the batch on the reply to that
  batch.
\<close>

theorem operations_frame:
  "host (fst (exec sha256 op (c, w))) = host c
   \<and> password (fst (exec sha256 op (c, w))) = password c
   \<and> base_url (fst (exec sha256 op (c, w))) = base_url c
   \<and> (\<forall>cl. op = CallOne cl \<longrightarrow> session_id (fst (exec sha256 op (c, w))) = session_id c)
   \<and> (op = Close \<longrightarrow> session_id (fst (exec sha256 op (c, w))) = session_id c)
   \<and> (\<forall>calls. op = CallBatch calls \<longrightarrow>
         session_id (fst (exec sha256 op (c, w))) = session_id c
         \<or> (session_id (fst (exec sha256 op (c, w))) = JStr UNAUTHENTICATED_SESSION
            \<and> (\<exists>items. replies w (length (sent w)) = Inr (JArr items)
                  \<and> 2 \<le> expiry_signals items)))
   \<and> (op = Authenticate \<longrightarrow>
         session_id (fst (exec sha256 op (c, w))) = session_id c
         \<or> (fst (async_login sha256 c w)
            \<and> (\<exists>code. login_code (payload (replies w (Suc (length (sent w))))) = Some code
                  \<and> py_in code [LStr ''0'', LInt 0])
            \<and> member (payload (replies w (Suc (length (sent w))))) ''ubus_rpc_session''
                = Some (session_id (fst (exec sha256 op (c, w))))))
   \<and> (op = Refresh \<longrightarrow>
         session_id (fst (exec sha256 op (c, w))) = session_id c
         \<or> ((\<exists>pw. password c = Some pw \<and> pw \<noteq> [])
            \<and> session_id c = JStr UNAUTHENTICATED_SESSION
            \<and> fst (async_login sha256 c w)
            \<and> (\<exists>code. login_code (payload (replies w (Suc (length (sent w))))) = Some code
                  \<and> py_in code [LStr ''0'', LInt 0])
            \<and> member (payload (replies w (Suc (length (sent w))))) ''ubus_rpc_session''
                = Some (session_id (fst (exec sha256 op (c, w)))))
         \<or> (session_id (fst (exec sha256 op (c, w))) = JStr UNAUTHENTICATED_SESSION
            \<and> (\<exists>items. replies w (length (sent (snd (snd (update_login sha256 c w)))))
                           = Inr (JArr items)
                  \<and> 2 \<le> expiry_signals items)))"
proof -
  obtain c' w' where e: "exec sha256 op (c, w) = (c', w')"
    by (cases "exec sha256 op (c, w)")
  from advances_exec [of "(c, w)" sha256 op] e
  have f: "host c' = host c \<and> password c' = password c \<and> base_url c' = base_url c"
    by (simp add: advances_fields)
  have one: "\<forall>cl. op = CallOne cl \<longrightarrow> session_id c' = session_id c"
    using e by (auto simp: call_api_eq)
  have cls: "op = Close \<longrightarrow> session_id c' = session_id c"
    using e by (auto simp: close_def)
  have batch: "\<forall>calls. op = CallBatch calls \<longrightarrow>
         session_id c' = session_id c
         \<or> (session_id c' = JStr UNAUTHENTICATED_SESSION
            \<and> (\<exists>items. replies w (length (sent w)) = Inr (JArr items)
                  \<and> 2 \<le> expiry_signals items))"
  proof (intro allI impI)
    fix calls assume "op = CallBatch calls"
    with e have "c' = fst (snd (call_api_batch c w calls))" by simp
    with call_api_batch_token [of c w calls] show "session_id c' = session_id c
         \<or> (session_id c' = JStr UNAUTHENTICATED_SESSION
            \<and> (\<exists>items. replies w (length (sent w)) = Inr (JArr items)
                  \<and> 2 \<le> expiry_signals items))" by simp
  qed
  have auth: "op = Authenticate \<longrightarrow>
         session_id c' = session_id c
         \<or> (fst (async_login sha256 c w)
            \<and> (\<exists>code. login_code (payload (replies w (Suc (length (sent w))))) = Some code
                  \<and> py_in code [LStr ''0'', LInt 0])
            \<and> member (payload (replies w (Suc (length (sent w))))) ''ubus_rpc_session''
                = Some (session_id c'))"
  proof
    assume "op = Authenticate"
    with e have "c' = fst (snd (authenticate sha256 c w))"
      by (simp add: async_login_authenticate)
    with authenticate_token [of sha256 c w] show "session_id c' = session_id c
         \<or> (fst (async_login sha256 c w)
            \<and> (\<exists>code. login_code (payload (replies w (Suc (length (sent w))))) = Some code
                  \<and> py_in code [LStr ''0'', LInt 0])
            \<and> member (payload (replies w (Suc (length (sent w))))) ''ubus_rpc_session''
                = Some (session_id c'))"
      by (simp add: async_login_authenticate)
  qed
  have refresh: "op = Refresh \<longrightarrow>
         session_id c' = session_id c
         \<or> ((\<exists>pw. password c = Some pw \<and> pw \<noteq> [])
            \<and> session_id c = JStr UNAUTHENTICATED_SESSION
            \<and> fst (async_login sha256 c w)
            \<and> (\<exists>code. login_code (payload (replies w (Suc (length (sent w))))) = Some code
                  \<and> py_in code [LStr ''0'', LInt 0])
            \<and> member (payload (replies w (Suc (length (sent w))))) ''ubus_rpc_session''
                = Some (session_id c'))
         \<or> (session_id c' = JStr UNAUTHENTICATED_SESSION
            \<and> (\<exists>items. replies w (length (sent (snd (snd (update_login sha256 c w)))))
                           = Inr (JArr items)
                  \<and> 2 \<le> expiry_signals items))"
  proof
    assume "op = Refresh"
    with e have "c' = fst (snd (async_update sha256 c w))" by simp
    with async_update_token [of sha256 c w] show "session_id c' = session_id c
         \<or> ((\<exists>pw. password c = Some pw \<and> pw \<noteq> [])
            \<and> session_id c = JStr UNAUTHENTICATED_SESSION
            \<and> fst (async_login sha256 c w)
            \<and> (\<exists>code. login_code (payload (replies w (Suc (length (sent w))))) = Some code
                  \<and> py_in code [LStr ''0'', LInt 0])
            \<and> member (payload (replies w (Suc (length (sent w))))) ''ubus_rpc_session''
                = Some (session_id c'))
         \<or> (session_id c' = JStr UNAUTHENTICATED_SESSION
            \<and> (\<exists>items. replies w (length (sent (snd (snd (update_login sha256 c w)))))
                           = Inr (JArr items)
                  \<and> 2 \<le> expiry_signals items))" by simp
  qed
  from f one cls batch auth refresh show ?thesis unfolding e fst_conv by blast
qed

text \<open>A single call and a batch of five against an unreachable device: ids 1 to 6.\<close>

theorem request_ids_increasing_witness:
  "sent_ids (snd (run stub_sha256
       [CallOne (''zwrt_web'', ''web_login_info'', None),
        CallBatch (update_calls ''router_get_status_no_auth'')]
       (init ''192.168.0.1'' None, device []))) = [1, 2, 3, 4, 5, 6]"
proof -
  let ?ops = "[CallOne (''zwrt_web'', ''web_login_info'', None),
        CallBatch (update_calls ''router_get_status_no_auth'')]"
  let ?r = "run stub_sha256 ?ops (init ''192.168.0.1'' None, device [])"
  have s: "sent (device []) = []" by (simp add: device_def)
  have e: "?r = (fst ?r, snd ?r)" by simp
  have n: "request_id (fst ?r) = 7"
    by (simp add: call_api_eq call_api_batch_eq call_api_batch_try_def device_def scripted_def
          init_def update_calls_def)
  from request_ids_increasing [OF s e] have "sent_ids (snd ?r) = [1..request_id (fst ?r) - 1]"
    by blast
  also have "\<dots> = [1, 2, 3, 4, 5, 6]" unfolding n by (simp add: upto.simps)
  finally show ?thesis .
qed

text \<open>A single call answered with access denied keeps the token \<^verbatim>\<open>T1\<close>.\<close>

theorem operations_frame_witness:
  "session_id (fst (exec stub_sha256 (CallOne (''zwrt_wlan'', ''report'', None))
       (logged_in, device [Inr (JArr [access_denied_item])]))) = JStr ''T1''
   \<and> host (fst (exec stub_sha256 (CallOne (''zwrt_wlan'', ''report'', None))
       (logged_in, device [Inr (JArr [access_denied_item])]))) = ''192.168.0.1''"
  using operations_frame [of stub_sha256 "CallOne (''zwrt_wlan'', ''report'', None)" logged_in
      "device [Inr (JArr [access_denied_item])]"]
  by (simp add: logged_in_def init_def)

section \<open>Envelopes and the results of a batch\<close>

lemma envelopes_map:
  "envelopes token n cls = map (\<lambda>i. envelope token (n + int i) (cls ! i)) [0..<length cls]"
  by (rule nth_equalityI) (simp_all add: nth_envelopes)

text \<open>
  Claim C6, as amended. The envelope of a call is an object whose member \<^verbatim>\<open>jsonrpc\<close> is
  \<^verbatim>\<open>"2.0"\<close>, whose \<^verbatim>\<open>id\<close> is the current value of the request counter, whose
  \<^verbatim>\<open>method\<close> is \<^verbatim>\<open>"call"\<close> and whose \<^verbatim>\<open>params\<close> is the array of the session
  token, the namespace, the method and the parameters, an empty object when there are none.
  The body of a batch is the array of the envelopes of its calls, in order, the \<open>i\<close>-th
  built with the counter advanced by \<open>i\<close>.
\<close>

theorem envelope_members:
  "member (fst (create_rpc_request c (namespace, method, params))) ''jsonrpc'' = Some (JStr ''2.0'')
   \<and> member (fst (create_rpc_request c (namespace, method, params))) ''id''
        = Some (JInt (request_id c))
   \<and> member (fst (create_rpc_request c (namespace, method, params))) ''method''
        = Some (JStr ''call'')
   \<and> member (fst (create_rpc_request c (namespace, method, params))) ''params''
        = Some (JArr [session_id c, JStr namespace, JStr method,
                      JObj (case params of None \<Rightarrow> [] | Some ps \<Rightarrow> ps)])
   \<and> sent (snd (snd (call_api_batch c w calls)))
        = sent w @
          [JArr (map (\<lambda>i. fst (create_rpc_request (c\<lparr>request_id := request_id c + int i\<rparr>)
                                  (calls ! i)))
                     [0..<length calls])]"
proof -
  from call_api_batch_state [of c w calls]
  have "sent (snd (snd (call_api_batch c w calls)))
          = sent w @ [JArr (envelopes (session_id c) (request_id c) calls)]"
    by auto
  then show ?thesis
    by (simp add: create_rpc_request_eq envelope_def envelopes_map)
qed

text \<open>A batch of two calls by a client that has not logged in.\<close>

theorem envelope_members_witness:
  "sent (snd (snd (call_api_batch fresh_client (device [])
                     [(''zwrt_router.api'', ''router_get_status_no_auth'', None),
                      (''zwrt_data'', ''get_wwandst'', Some [(''cid'', JInt 1)])])))
     = [JArr [JObj [(''jsonrpc'', JStr ''2.0''), (''id'', JInt 1), (''method'', JStr ''call''),
                    (''params'', JArr [JStr UNAUTHENTICATED_SESSION, JStr ''zwrt_router.api'',
                                       JStr ''router_get_status_no_auth'', JObj []])],
              JObj [(''jsonrpc'', JStr ''2.0''), (''id'', JInt 2), (''method'', JStr ''call''),
                    (''params'', JArr [JStr UNAUTHENTICATED_SESSION, JStr ''zwrt_data'',
                                       JStr ''get_wwandst'', JObj [(''cid'', JInt 1)]])]]]"
proof -
  have u: "[0..<2] = [0, Suc 0]" by (simp add: upt_rec)
  show ?thesis
    using envelope_members [of fresh_client "''a''" "''b''" None "device []"
      "[(''zwrt_router.api'', ''router_get_status_no_auth'', None),
        (''zwrt_data'', ''get_wwandst'', Some [(''cid'', JInt 1)])]"]
    by (simp add: u create_rpc_request_def fresh_client_def init_def device_def)
qed

text \<open>
  Claim C6 as stated fails: the envelope has no member \<^verbatim>\<open>version\<close>; the protocol
  version is carried by the member \<^verbatim>\<open>jsonrpc\<close>.
\<close>

theorem envelope_version_counterexample:
  "member (fst (create_rpc_request fresh_client (''zwrt_wlan'', ''report'', None))) ''version''
     \<noteq> Some (JStr ''2.0'')"
  by (simp add: create_rpc_request_def)

lemma call_api_batch_length:
  "length (fst (call_api_batch c w calls)) =
     (case replies w (length (sent w)) of
        Inr (JArr items) \<Rightarrow>
          (case batch_loop items [] 0 of Inl err \<Rightarrow> length calls | Inr p \<Rightarrow> length items)
      | _ \<Rightarrow> length calls)"
proof (cases "replies w (length (sent w))")
  case (Inl err)
  then show ?thesis by (simp add: call_api_batch_eq call_api_batch_try_def)
next
  case (Inr data)
  show ?thesis
  proof (cases "\<exists>items. data = JArr items")
    case False
    with Inr show ?thesis
      by (cases data) (simp_all add: call_api_batch_eq call_api_batch_try_def)
  next
    case True
    then obtain items where d: "data = JArr items" by blast
    show ?thesis
    proof (cases "batch_loop items [] 0")
      case (Inl err)
      with Inr d show ?thesis by (simp add: call_api_batch_eq call_api_batch_try_def)
    next
      case loop: (Inr p)
      obtain rs m where p: "p = (rs, m)" by (cases p)
      from batch_loop_Inr [OF loop [unfolded p]] have "length rs = length items" by simp
      with Inr d loop p show ?thesis by (simp add: call_api_batch_eq call_api_batch_try_def)
    qed
  qed
qed

text \<open>
  Claim C2 fails on the code: five calls answered by an array of one item give one result.
  The loop appends one result per item of the response, and \<^verbatim>\<open>results\<close> is returned
  as it is, whereas both fallback paths return \<^verbatim>\<open>[None] * len(calls)\<close>.
\<close>

theorem call_api_batch_short_response:
  "length (update_calls ''router_get_status_no_auth'') = 5
   \<and> fst (call_api_batch (init ''192.168.0.1'' None)
            (device [Inr (JArr [payload_item (JObj [(''wan_status'', JStr ''up'')])])])
            (update_calls ''router_get_status_no_auth''))
       = [JObj [(''wan_status'', JStr ''up'')]]"
  by (simp add: call_api_batch_eq call_api_batch_try_def device_def scripted_def payload_item_def
        update_calls_def)

section \<open>Refresh\<close>

lemma update_login_unreachable:
  assumes "\<forall>k. \<exists>err. replies w k = Inl err"
  shows "\<exists>c1 w1. update_login sha256 c w = (Inr (), c1, w1)
           \<and> session_id c1 = session_id c \<and> replies w1 = replies w"
proof -
  from assms obtain err where "replies w (length (sent w)) = Inl err" by blast
  then have "salt_of (payload (replies w (length (sent w)))) = None"
    by (simp add: payload_failure salt_of_def)
  then have "\<exists>c1 w1. authenticate sha256 c w = (False, c1, w1)
           \<and> session_id c1 = session_id c \<and> replies w1 = replies w"
    by (auto simp: authenticate_def split: option.splits)
  then show ?thesis
    by (auto simp: update_login_def async_login_authenticate)
qed

lemma update_results_none:
  "update_results (replicate 5 JNull) =
     Inr (JObj [(''router_status'', JObj []), (''network_info'', JObj []),
                (''data_usage'', JObj []), (''device_info'', JObj []),
                (''wlan_info'', JObj [])])"
  by (simp add: update_results_def py_or_def numeral_nat)

lemma length_update_calls [simp]: "length (update_calls m) = 5"
  by (simp add: update_calls_def)

text \<open>With a device that cannot be reached and a string as token, a refresh returns the
  snapshot of five empty sections.\<close>

lemma async_update_unreachable:
  assumes "\<forall>k. \<exists>err. replies w k = Inl err" and "session_id c = JStr token"
  shows "fst (async_update sha256 c w) =
     Inr (JObj [(''router_status'', JObj []), (''network_info'', JObj []),
                (''data_usage'', JObj []), (''device_info'', JObj []),
                (''wlan_info'', JObj [])])"
proof -
  from update_login_unreachable [OF assms(1), of sha256 c] obtain c1 w1
    where l: "update_login sha256 c w = (Inr (), c1, w1)"
      and t: "session_id c1 = session_id c" and r: "replies w1 = replies w"
    by blast
  from assms(1) r obtain err where e: "replies w1 (length (sent w1)) = Inl err" by metis
  have b: "fst (call_api_batch c1 w1 (update_calls m)) = replicate 5 JNull" for m
    by (simp add: call_api_batch_eq call_api_batch_try_def e)
  show ?thesis
    using l t assms(2) b
    by (simp add: async_update_def Let_def update_results_none split: prod.splits)
       (metis fst_conv update_results_none)
qed

text \<open>When the token is a string after the login step, a refresh posts one batch: the
  five calls, with the status method chosen by the token.\<close>

lemma async_update_batch:
  assumes "update_login sha256 c w = (Inr u, c1, w1)" and "session_id c1 = JStr token"
  shows "sent (snd (snd (async_update sha256 c w))) =
     sent w1 @
     [JArr (envelopes (JStr token) (request_id c1)
        (update_calls (if token \<noteq> UNAUTHENTICATED_SESSION
                       then ''router_get_status'' else ''router_get_status_no_auth'')))]"
proof -
  let ?calls = "update_calls (if session_id c1 \<noteq> JStr UNAUTHENTICATED_SESSION
                 then ''router_get_status'' else ''router_get_status_no_auth'')"
  have "snd (async_update sha256 c w) = snd (call_api_batch c1 w1 ?calls)"
    using assms by (simp add: async_update_def Let_def split: prod.splits)
  moreover from call_api_batch_state [of c1 w1 ?calls]
  have "sent (snd (snd (call_api_batch c1 w1 ?calls)))
          = sent w1 @ [JArr (envelopes (session_id c1) (request_id c1) ?calls)]"
    by auto
  ultimately show ?thesis using assms(2) by simp
qed

text \<open>
  Claim C3 fails on the code: without a password, a batch response of one item makes
  \<^verbatim>\<open>async_update\<close> raise \<^verbatim>\<open>IndexError\<close> at \<^verbatim>\<open>results[1]\<close>.
\<close>

theorem async_update_short_response:
  "fst (async_update stub_sha256 (init ''192.168.0.1'' None)
          (device [Inr (JArr [payload_item (JObj [(''wan_status'', JStr ''up'')])])]))
     = Inl IndexError"
  by (simp add: async_update_def update_login_def init_def UNAUTHENTICATED_SESSION_def
        call_api_batch_eq call_api_batch_try_def device_def scripted_def payload_item_def
        update_results_def)

text \<open>
  Claim C7 fails on the code: when the login is accepted with \<^verbatim>\<open>ubus_rpc_session\<close>
  \<^verbatim>\<open>null\<close>, the token is \<^verbatim>\<open>None\<close>, the log call after the login raises
  \<^verbatim>\<open>TypeError\<close> on \<^verbatim>\<open>self.session_id[:8]\<close>, and the refresh ends after the two
  POSTs of the login, without a batch.
\<close>

theorem async_update_null_session:
  "fst (async_update stub_sha256 fresh_client
          (device [salt_reply,
                   login_reply (JObj [(''result'', JInt 0), (''ubus_rpc_session'', JNull)])]))
     = Inl TypeError
   \<and> length (sent (snd (snd (async_update stub_sha256 fresh_client
          (device [salt_reply,
                   login_reply (JObj [(''result'', JInt 0), (''ubus_rpc_session'', JNull)])])))))
     = 2"
  using pass_digest_defined
  by (simp add: async_update_def update_login_def async_login_authenticate authenticate_def
        device_replies scripted_def salt_reply_salt login_reply_payload fresh_client_def
        init_def py_in_def)

end
